theory Spec2Isabelle
  imports Main "HOL-Library.AList"
begin

section \<open>Errors\<close>

text \<open>
  The outcomes other than a normal return. \<open>ValidationError\<close> is pydantic's (the
  framework answers 422); \<open>ValueError\<close>, \<open>TypeError\<close> and \<open>OverflowError\<close> are Python
  exceptions that leave a handler or a validator (the framework answers 500);
  \<open>NotFound\<close> is the 404 the specification names, which no path of the code produces.
\<close>

datatype error = ValidationError | ValueError | TypeError | OverflowError | NotFound

definition bind_r :: "error + 'a \<Rightarrow> ('a \<Rightarrow> error + 'b) \<Rightarrow> error + 'b" where
  "bind_r m f = (case m of Inl e \<Rightarrow> Inl e | Inr x \<Rightarrow> f x)"

section \<open>Python built-ins used by the handlers\<close>

text \<open>
  Strings are lists of 8-bit characters: the code points 0 to 255 of a Python \<open>str\<close>.
  \<open>int(s)\<close> on a string skips white space on both sides, reads an optional sign and
  then decimal digits, where single underscores may stand between digits; anything
  else raises \<open>ValueError\<close>, and so does a numeral of more than 4300 digits (the
  interpreter's limit on conversions between \<open>int\<close> and \<open>str\<close>).
\<close>

definition py_isspace :: "char \<Rightarrow> bool" where
  "py_isspace c = (of_char c \<in> {9::nat, 10, 11, 12, 13, 32, 133, 160})"

definition py_isdigit :: "char \<Rightarrow> bool" where
  "py_isdigit c = (48 \<le> (of_char c :: nat) \<and> (of_char c :: nat) \<le> 57)"

definition digit_val :: "char \<Rightarrow> nat" where
  "digit_val c = of_char c - 48"

definition max_str_digits :: nat where
  "max_str_digits = 4300"

text \<open>Underscores are legal between two digits only.\<close>

fun underscores_ok :: "string \<Rightarrow> bool" where
  "underscores_ok [] = False"
| "underscores_ok [c] = py_isdigit c"
| "underscores_ok (c # d # cs) =
     (if py_isdigit c then
        (if d = CHR ''_'' then (case cs of [] \<Rightarrow> False | e # _ \<Rightarrow> py_isdigit e \<and> underscores_ok cs)
         else underscores_ok (d # cs))
      else False)"

definition digits_value :: "string \<Rightarrow> nat" where
  "digits_value ds = foldl (\<lambda>acc c. 10 * acc + digit_val c) 0 ds"

definition py_int :: "string \<Rightarrow> error + int" where
  "py_int s =
     (let s1 = dropWhile py_isspace s;
          neg = (case s1 of c # _ \<Rightarrow> c = CHR ''-'' | [] \<Rightarrow> False);
          s2 = (case s1 of c # cs \<Rightarrow> (if c = CHR ''+'' \<or> c = CHR ''-'' then cs else s1) | [] \<Rightarrow> s1);
          body = takeWhile (\<lambda>c. py_isdigit c \<or> c = CHR ''_'') s2;
          rest = dropWhile (\<lambda>c. py_isdigit c \<or> c = CHR ''_'') s2;
          ds = filter py_isdigit body
      in if underscores_ok body \<and> list_all py_isspace rest \<and> length ds \<le> max_str_digits
         then Inr (if neg then - int (digits_value ds) else int (digits_value ds))
         else Inl ValueError)"

text \<open>\<open>str(n)\<close> of an integer: its decimal digits, a minus sign first when negative.\<close>

definition digit_char :: "nat \<Rightarrow> char" where
  "digit_char d = char_of (48 + d)"

fun dec_digits :: "nat \<Rightarrow> string" where
  "dec_digits n = (if n < 10 then [digit_char n] else dec_digits (n div 10) @ [digit_char (n mod 10)])"

declare dec_digits.simps [simp del]

definition py_str :: "int \<Rightarrow> error + string" where
  "py_str n =
     (let ds = dec_digits (nat \<bar>n\<bar>)
      in if length ds > max_str_digits then Inl ValueError
         else Inr (if n < 0 then CHR ''-'' # ds else ds))"

section \<open>JSON values\<close>

text \<open>
  A request body as the framework hands it to the validation layer: the Python value
  that \<open>json.loads\<close> built. A Python \<open>float\<close> is a value of the type parameter \<open>'f\<close>;
  an object is the list of its items in insertion order (a \<open>dict\<close>: its keys are
  distinct), read with \<open>map_of\<close>.
\<close>

datatype 'f json =
    JNull
  | JBool bool
  | JInt int
  | JFloat 'f
  | JStr string
  | JArr "'f json list"
  | JObj "(string \<times> 'f json) list"

section \<open>The data model (models.py)\<close>

text \<open>
  \<open>Address\<close>, \<open>TokenAmount\<close>, \<open>BigUint\<close> and \<open>OrderUID\<close> are \<open>Annotated[str, Field(description, example)]\<close>:
  plain strings, the annotation carrying documentation only. \<open>DateTime\<close> is
  \<open>datetime.datetime\<close>, a value of the type parameter \<open>'dt\<close>. Field names carry a
  prefix per class where classes share a name.
\<close>

type_synonym Address = string
type_synonym TokenAmount = string
type_synonym BigUint = string
type_synonym OrderUID = string

datatype OrderKind = Buy | Sell
datatype SellTokenSource = SellErc20 | SellInternal | SellExternal
datatype BuyTokenSource = BuyErc20 | BuyInternal
datatype OrderClass = Market | Limit
datatype SigningScheme = Eip712 | Ethsign | Presign | Eip1271

record Interaction =
  i_target :: Address
  i_value :: TokenAmount
  i_callData :: string

record Quote =
  q_sellAmount :: TokenAmount
  q_buyAmount :: TokenAmount
  q_fee :: TokenAmount
  q_solver :: Address

text \<open>The fee policies; each carries its \<open>kind\<close> as its constructor.\<close>

datatype 'f FeePolicy =
    SurplusFee (maxVolumeFactor: 'f) (factor: 'f)
  | PriceImprovement (maxVolumeFactor: 'f) (factor: 'f) (quote: Quote)
  | VolumeFee (factor: 'f)

record JitOrder =
  jo_sellToken :: Address
  jo_buyToken :: Address
  jo_sellAmount :: TokenAmount
  jo_buyAmount :: TokenAmount
  jo_executedAmount :: TokenAmount
  jo_receiver :: Address
  jo_validTo :: int
  jo_side :: OrderKind
  jo_partiallyFillable :: bool
  jo_sellTokenSource :: SellTokenSource
  jo_buyTokenSource :: BuyTokenSource
  jo_appData :: string
  jo_signature :: string
  jo_signingScheme :: SigningScheme

record 'f Order =
  o_uid :: OrderUID
  o_sellToken :: Address
  o_buyToken :: Address
  o_sellAmount :: TokenAmount
  o_buyAmount :: TokenAmount
  o_created :: string
  o_validTo :: int
  o_kind :: OrderKind
  o_receiver :: Address
  o_owner :: Address
  o_partiallyFillable :: bool
  o_executed :: TokenAmount
  o_preInteractions :: "Interaction list"
  o_postInteractions :: "Interaction list"
  o_sellTokenBalance :: SellTokenSource
  o_buyTokenBalance :: BuyTokenSource
  o_klass :: OrderClass
  o_appData :: string
  o_signingScheme :: SigningScheme
  o_signature :: string
  o_protocolFees :: "'f FeePolicy list"
  o_quote :: "Quote option"

record Calldata =
  internalized :: string
  uninternalized :: string

record QuoteResponse =
  qr_clearingPrices :: "(Address \<times> BigUint) list"
  qr_preInteractions :: "Interaction list"
  qr_interactions :: "Interaction list"
  qr_solver :: Address
  qr_gas :: int
  qr_txOrigin :: "Address option"
  qr_jitOrders :: "JitOrder list"

record RevealRequest =
  solutionId :: int
  auctionId :: int

record RevealResponse =
  calldata :: Calldata

record SolverTokenBalance =
  balance :: TokenAmount

record SolverLiquidity =
  sl_address :: Address
  sl_fee :: string
  sl_gasEstimate :: TokenAmount
  sl_id :: string
  sl_kind :: string
  sl_router :: Address
  sl_tokens :: "(Address \<times> SolverTokenBalance) list"

record SolverTokenInfo =
  availableBalance :: TokenAmount
  decimals :: "int option"
  referencePrice :: "TokenAmount option"
  symbol :: "string option"
  trusted :: bool

record 'f SolverOrder =
  so_appData :: string
  so_buyAmount :: TokenAmount
  so_buyToken :: Address
  so_buyTokenDestination :: string
  so_klass :: OrderClass
  so_fullBuyAmount :: TokenAmount
  so_fullSellAmount :: TokenAmount
  so_kind :: OrderKind
  so_owner :: Address
  so_partiallyFillable :: bool
  so_postInteractions :: "'f json list"
  so_preInteractions :: "'f json list"
  so_sellAmount :: TokenAmount
  so_sellToken :: Address
  so_sellTokenSource :: string
  so_signature :: string
  so_signingScheme :: string
  so_uid :: OrderUID
  so_validTo :: int
  so_receiver :: "Address option"
  so_created :: "string option"
  so_executed :: "TokenAmount option"
  so_protocolFees :: "'f json list"

record ('f, 'dt) SolverRequest =
  sr_deadline :: 'dt
  sr_effectiveGasPrice :: TokenAmount
  sr_id :: "int option"
  sr_liquidity :: "SolverLiquidity list"
  sr_orders :: "'f SolverOrder list"
  sr_surplusCapturingJitOrderOwners :: "Address list"
  sr_tokens :: "(Address \<times> SolverTokenInfo) list"

datatype FulfillmentKind = Fulfillment
datatype LiquidityKind = Liquidity

record TradeFulfillment =
  tf_kind :: FulfillmentKind
  tf_order :: OrderUID
  tf_executedAmount :: TokenAmount
  tf_fee :: "TokenAmount option"

record LiquidityInteraction =
  li_kind :: LiquidityKind
  li_internalize :: bool
  li_id :: string
  li_inputToken :: Address
  li_outputToken :: Address
  li_inputAmount :: TokenAmount
  li_outputAmount :: TokenAmount

record Solution =
  s_id :: int
  s_prices :: "(Address \<times> TokenAmount) list"
  s_trades :: "TradeFulfillment list"
  s_interactions :: "LiquidityInteraction list"
  s_gas :: "int option"

record SolveResponse =
  solutions :: "Solution list"

section \<open>The handlers (main.py)\<close>

text \<open>
  A dict literal \<open>{k1: v1, k2: v2}\<close> inserts its items in order; a repeated key keeps
  its place and takes the later value, which is \<open>AList.update\<close>.
\<close>

definition dict2 :: "string \<Rightarrow> 'v \<Rightarrow> string \<Rightarrow> 'v \<Rightarrow> (string \<times> 'v) list" where
  "dict2 k1 v1 k2 v2 = AList.update k2 v2 (AList.update k1 v1 [])"

text \<open>\<open>get_mock_address\<close>: \<open>f"0x{'1'*(39-len(str(index)))}{index}aBcDeF"\<close>.\<close>

definition get_mock_address :: "int \<Rightarrow> error + Address" where
  "get_mock_address index =
     bind_r (py_str index) (\<lambda>s.
       Inr (''0x'' @ replicate (nat (39 - int (length s))) (CHR ''1'') @ s @ ''aBcDeF''))"

text \<open>
  \<open>get_quote\<close>. The two amounts are local variables of the handler: they are computed
  (so a string that \<open>int\<close> refuses, or a result that \<open>str\<close> refuses, raises) and the
  response is then built without them.
\<close>

definition quote_amounts :: "OrderKind \<Rightarrow> TokenAmount \<Rightarrow> error + (TokenAmount \<times> TokenAmount)" where
  "quote_amounts kind amount =
     (if kind = Sell then
        bind_r (py_int amount) (\<lambda>a.
        bind_r (py_str (a * 95 div 100)) (\<lambda>buy_amount.
        Inr (amount, buy_amount)))
      else
        bind_r (py_int amount) (\<lambda>a.
        bind_r (py_str (a * 100 div 95)) (\<lambda>sell_amount.
        Inr (sell_amount, amount))))"

definition get_quote ::
  "Address \<Rightarrow> Address \<Rightarrow> OrderKind \<Rightarrow> TokenAmount \<Rightarrow> 'dt \<Rightarrow> error + QuoteResponse" where
  "get_quote sellToken buyToken kind amount deadline =
     bind_r (quote_amounts kind amount) (\<lambda>(sell_amount, buy_amount).
     bind_r (get_mock_address 0) (\<lambda>solver.
     Inr \<lparr> qr_clearingPrices =
             dict2 sellToken ''1000000000000000000'' buyToken ''950000000000000000'',
           qr_preInteractions = [],
           qr_interactions = [],
           qr_solver = solver,
           qr_gas = 150000,
           qr_txOrigin = None,
           qr_jitOrders = [] \<rparr>))"

text \<open>
  \<open>solve_auction\<close>. \<open>first_order\<close> and \<open>first_liquidity\<close> are the first items or
  \<open>None\<close>; a model instance is always truthy, so \<open>not first_order\<close> holds exactly when
  it is \<open>None\<close>.
\<close>

definition first_or_none :: "'a list \<Rightarrow> 'a option" where
  "first_or_none xs = (case xs of [] \<Rightarrow> None | x # _ \<Rightarrow> Some x)"

definition mock_solution :: "'f SolverOrder \<Rightarrow> SolverLiquidity \<Rightarrow> Solution" where
  "mock_solution first_order first_liquidity =
     \<lparr> s_id = 0,
       s_prices = dict2 (so_sellToken first_order) (so_buyAmount first_order)
                        (so_buyToken first_order) (so_sellAmount first_order),
       s_trades =
         [\<lparr> tf_kind = Fulfillment,
            tf_order = so_uid first_order,
            tf_executedAmount = so_sellAmount first_order,
            tf_fee = None \<rparr>],
       s_interactions =
         [\<lparr> li_kind = Liquidity,
            li_internalize = False,
            li_id = sl_id first_liquidity,
            li_inputToken = so_sellToken first_order,
            li_outputToken = so_buyToken first_order,
            li_inputAmount = so_sellAmount first_order,
            li_outputAmount = so_buyAmount first_order \<rparr>],
       s_gas = Some 250000 \<rparr>"

definition solve_auction :: "('f, 'dt) SolverRequest \<Rightarrow> error + SolveResponse" where
  "solve_auction request =
     (let first_order = first_or_none (sr_orders request);
          first_liquidity = first_or_none (sr_liquidity request)
      in case (first_order, first_liquidity) of
           (Some ord, Some liq) \<Rightarrow> Inr \<lparr> solutions = [mock_solution ord liq] \<rparr>
         | _ \<Rightarrow> Inr \<lparr> solutions = [] \<rparr>)"

text \<open>\<open>reveal_solution\<close>: the request is not read.\<close>

definition reveal_solution :: "RevealRequest \<Rightarrow> error + RevealResponse" where
  "reveal_solution request =
     Inr \<lparr> calldata = \<lparr> internalized = ''0xdeadbeef1234'', uninternalized = ''0xfeedface5678'' \<rparr> \<rparr>"

text \<open>A run of the service on a list of solve requests, and the ids it hands out.\<close>

definition solve_calls :: "('f, 'dt) SolverRequest list \<Rightarrow> (error + SolveResponse) list" where
  "solve_calls requests = map solve_auction requests"

definition produced_ids :: "(error + SolveResponse) list \<Rightarrow> int list" where
  "produced_ids responses =
     concat (map (\<lambda>r. case r of Inl e \<Rightarrow> [] | Inr resp \<Rightarrow> map s_id (solutions resp)) responses)"

definition produces :: "('f, 'dt) SolverRequest \<Rightarrow> bool" where
  "produces request = (sr_orders request \<noteq> [] \<and> sr_liquidity request \<noteq> [])"

section \<open>The validation layer (pydantic, as models.py configures it)\<close>

text \<open>
  models.py sets no model configuration, so every field is validated in pydantic's
  default (lax) mode: a string field takes a string only; an integer field takes an
  integer or a boolean and converts strings and floats; a boolean field takes a boolean
  or the integers 0 and 1 and converts strings and floats; a float field takes a float
  and converts the rest. The conversions whose tables are the library's are parameters,
  as are the parsing of timestamps and Python's \<open>int\<close> on a float.
\<close>

record ('f, 'dt) conversions =
  str_as_int :: "string \<Rightarrow> int option"
  float_as_int :: "'f \<Rightarrow> int option"
  str_as_bool :: "string \<Rightarrow> bool option"
  float_as_bool :: "'f \<Rightarrow> bool option"
  int_as_float :: "int \<Rightarrow> 'f option"
  bool_as_float :: "bool \<Rightarrow> 'f option"
  str_as_float :: "string \<Rightarrow> 'f option"
  to_datetime :: "'f json \<Rightarrow> 'dt option"
  py_int_of_float :: "'f \<Rightarrow> error + int"

definition or_invalid :: "'a option \<Rightarrow> error + 'a" where
  "or_invalid x = (case x of None \<Rightarrow> Inl ValidationError | Some y \<Rightarrow> Inr y)"

definition validate_str :: "'f json \<Rightarrow> error + string" where
  "validate_str j = (case j of JStr s \<Rightarrow> Inr s | _ \<Rightarrow> Inl ValidationError)"

definition validate_int :: "('f, 'dt) conversions \<Rightarrow> 'f json \<Rightarrow> error + int" where
  "validate_int L j =
     (case j of
        JInt i \<Rightarrow> Inr i
      | JBool b \<Rightarrow> Inr (if b then 1 else 0)
      | JStr s \<Rightarrow> or_invalid (str_as_int L s)
      | JFloat f \<Rightarrow> or_invalid (float_as_int L f)
      | _ \<Rightarrow> Inl ValidationError)"

definition validate_bool :: "('f, 'dt) conversions \<Rightarrow> 'f json \<Rightarrow> error + bool" where
  "validate_bool L j =
     (case j of
        JBool b \<Rightarrow> Inr b
      | JInt i \<Rightarrow> (if i = 0 then Inr False else if i = 1 then Inr True else Inl ValidationError)
      | JStr s \<Rightarrow> or_invalid (str_as_bool L s)
      | JFloat f \<Rightarrow> or_invalid (float_as_bool L f)
      | _ \<Rightarrow> Inl ValidationError)"

definition validate_float :: "('f, 'dt) conversions \<Rightarrow> 'f json \<Rightarrow> error + 'f" where
  "validate_float L j =
     (case j of
        JFloat f \<Rightarrow> Inr f
      | JInt i \<Rightarrow> or_invalid (int_as_float L i)
      | JBool b \<Rightarrow> or_invalid (bool_as_float L b)
      | JStr s \<Rightarrow> or_invalid (str_as_float L s)
      | _ \<Rightarrow> Inl ValidationError)"

definition validate_datetime :: "('f, 'dt) conversions \<Rightarrow> 'f json \<Rightarrow> error + 'dt" where
  "validate_datetime L j = or_invalid (to_datetime L j)"

text \<open>\<open>Literal[...]\<close>: the input must be a string equal to one of the listed values.\<close>

definition validate_literal :: "(string \<times> 'a) list \<Rightarrow> 'f json \<Rightarrow> error + 'a" where
  "validate_literal table j =
     (case j of JStr s \<Rightarrow> or_invalid (map_of table s) | _ \<Rightarrow> Inl ValidationError)"

text \<open>\<open>Optional[T]\<close>: \<open>null\<close> or a \<open>T\<close>.\<close>

definition validate_optional :: "('f json \<Rightarrow> error + 'a) \<Rightarrow> 'f json \<Rightarrow> error + 'a option" where
  "validate_optional v j =
     (case j of JNull \<Rightarrow> Inr None | _ \<Rightarrow> bind_r (v j) (\<lambda>x. Inr (Some x)))"

fun traverse :: "('a \<Rightarrow> error + 'b) \<Rightarrow> 'a list \<Rightarrow> error + 'b list" where
  "traverse v [] = Inr []"
| "traverse v (x # xs) = bind_r (v x) (\<lambda>y. bind_r (traverse v xs) (\<lambda>ys. Inr (y # ys)))"

text \<open>\<open>List[T]\<close>, the bare \<open>List\<close> (items of any type) and \<open>Dict[str, T]\<close>.\<close>

definition validate_list :: "('f json \<Rightarrow> error + 'a) \<Rightarrow> 'f json \<Rightarrow> error + 'a list" where
  "validate_list v j = (case j of JArr xs \<Rightarrow> traverse v xs | _ \<Rightarrow> Inl ValidationError)"

definition validate_any_list :: "'f json \<Rightarrow> error + 'f json list" where
  "validate_any_list j = (case j of JArr xs \<Rightarrow> Inr xs | _ \<Rightarrow> Inl ValidationError)"

definition validate_dict :: "('f json \<Rightarrow> error + 'a) \<Rightarrow> 'f json \<Rightarrow> error + (string \<times> 'a) list" where
  "validate_dict v j =
     (case j of
        JObj kvs \<Rightarrow> traverse (\<lambda>kx. bind_r (v (snd kx)) (\<lambda>y. Inr (fst kx, y))) kvs
      | _ \<Rightarrow> Inl ValidationError)"

text \<open>
  A field of a model: a required one (\<open>Field(...)\<close> or no default) must be present; one
  with a default takes the default when absent, without validation. Keys the model does
  not declare are ignored.
\<close>

definition required :: "(string \<times> 'f json) list \<Rightarrow> string \<Rightarrow> ('f json \<Rightarrow> error + 'a) \<Rightarrow> error + 'a" where
  "required kvs name v = (case map_of kvs name of None \<Rightarrow> Inl ValidationError | Some j \<Rightarrow> v j)"

definition with_default ::
  "(string \<times> 'f json) list \<Rightarrow> string \<Rightarrow> ('f json \<Rightarrow> error + 'a) \<Rightarrow> 'a \<Rightarrow> error + 'a" where
  "with_default kvs name v d = (case map_of kvs name of None \<Rightarrow> Inr d | Some j \<Rightarrow> v j)"

definition OrderKind_values :: "(string \<times> OrderKind) list" where
  "OrderKind_values = [(''buy'', Buy), (''sell'', Sell)]"

definition SellTokenSource_values :: "(string \<times> SellTokenSource) list" where
  "SellTokenSource_values =
     [(''erc20'', SellErc20), (''internal'', SellInternal), (''external'', SellExternal)]"

definition BuyTokenSource_values :: "(string \<times> BuyTokenSource) list" where
  "BuyTokenSource_values = [(''erc20'', BuyErc20), (''internal'', BuyInternal)]"

definition OrderClass_values :: "(string \<times> OrderClass) list" where
  "OrderClass_values = [(''market'', Market), (''limit'', Limit)]"

definition SigningScheme_values :: "(string \<times> SigningScheme) list" where
  "SigningScheme_values =
     [(''eip712'', Eip712), (''ethsign'', Ethsign), (''presign'', Presign), (''eip1271'', Eip1271)]"

subsection \<open>Scalars\<close>

definition decode_TokenAmount :: "'f json \<Rightarrow> error + TokenAmount" where
  "decode_TokenAmount j = validate_str j"

definition decode_Address :: "'f json \<Rightarrow> error + Address" where
  "decode_Address j = validate_str j"

definition decode_OrderUID :: "'f json \<Rightarrow> error + OrderUID" where
  "decode_OrderUID j = validate_str j"

text \<open>
  The wire form of an amount in the specification's words: decimal digits only, no
  leading zero, a value of at most \<open>2^256 - 1\<close>.
\<close>

definition spec_amount_wire_form :: "string \<Rightarrow> bool" where
  "spec_amount_wire_form s =
     (s \<noteq> [] \<and> list_all py_isdigit s \<and> (s = ''0'' \<or> hd s \<noteq> CHR ''0'')
      \<and> digits_value s < 2 ^ 256)"

subsection \<open>Interaction, Quote, FeePolicy\<close>

definition decode_Interaction :: "'f json \<Rightarrow> error + Interaction" where
  "decode_Interaction j =
     (case j of
        JObj kvs \<Rightarrow>
          bind_r (required kvs ''target'' decode_Address) (\<lambda>t.
          bind_r (required kvs ''value'' decode_TokenAmount) (\<lambda>v.
          bind_r (required kvs ''callData'' validate_str) (\<lambda>c.
          Inr \<lparr> i_target = t, i_value = v, i_callData = c \<rparr>)))
      | _ \<Rightarrow> Inl ValidationError)"

definition decode_Quote :: "'f json \<Rightarrow> error + Quote" where
  "decode_Quote j =
     (case j of
        JObj kvs \<Rightarrow>
          bind_r (required kvs ''sellAmount'' decode_TokenAmount) (\<lambda>s.
          bind_r (required kvs ''buyAmount'' decode_TokenAmount) (\<lambda>b.
          bind_r (required kvs ''fee'' decode_TokenAmount) (\<lambda>f.
          bind_r (required kvs ''solver'' decode_Address) (\<lambda>a.
          Inr \<lparr> q_sellAmount = s, q_buyAmount = b, q_fee = f, q_solver = a \<rparr>))))
      | _ \<Rightarrow> Inl ValidationError)"

definition decode_SurplusFee :: "('f, 'dt) conversions \<Rightarrow> (string \<times> 'f json) list \<Rightarrow> error + 'f FeePolicy" where
  "decode_SurplusFee L kvs =
     bind_r (required kvs ''kind'' (validate_literal [(''surplus'', ())])) (\<lambda>_.
     bind_r (required kvs ''maxVolumeFactor'' (validate_float L)) (\<lambda>m.
     bind_r (required kvs ''factor'' (validate_float L)) (\<lambda>f.
     Inr (SurplusFee m f))))"

definition decode_PriceImprovement :: "('f, 'dt) conversions \<Rightarrow> (string \<times> 'f json) list \<Rightarrow> error + 'f FeePolicy" where
  "decode_PriceImprovement L kvs =
     bind_r (required kvs ''kind'' (validate_literal [(''priceImprovement'', ())])) (\<lambda>_.
     bind_r (required kvs ''maxVolumeFactor'' (validate_float L)) (\<lambda>m.
     bind_r (required kvs ''factor'' (validate_float L)) (\<lambda>f.
     bind_r (required kvs ''quote'' decode_Quote) (\<lambda>q.
     Inr (PriceImprovement m f q)))))"

definition decode_VolumeFee :: "('f, 'dt) conversions \<Rightarrow> (string \<times> 'f json) list \<Rightarrow> error + 'f FeePolicy" where
  "decode_VolumeFee L kvs =
     bind_r (required kvs ''kind'' (validate_literal [(''volume'', ())])) (\<lambda>_.
     bind_r (required kvs ''factor'' (validate_float L)) (\<lambda>f.
     Inr (VolumeFee f)))"

text \<open>
  \<open>FeePolicy\<close> is \<open>Union[SurplusFee, PriceImprovement, VolumeFee]\<close> with
  \<open>Field(discriminator="kind")\<close>: the validator reads the \<open>kind\<close> item of the object,
  picks the class whose \<open>Literal\<close> it equals and validates with that class alone.
\<close>

definition decode_FeePolicy :: "('f, 'dt) conversions \<Rightarrow> 'f json \<Rightarrow> error + 'f FeePolicy" where
  "decode_FeePolicy L j =
     (case j of
        JObj kvs \<Rightarrow>
          (case map_of kvs ''kind'' of
             Some (JStr tag) \<Rightarrow>
               (if tag = ''surplus'' then decode_SurplusFee L kvs
                else if tag = ''priceImprovement'' then decode_PriceImprovement L kvs
                else if tag = ''volume'' then decode_VolumeFee L kvs
                else Inl ValidationError)
           | _ \<Rightarrow> Inl ValidationError)
      | _ \<Rightarrow> Inl ValidationError)"

definition policy_kind :: "'f FeePolicy \<Rightarrow> string" where
  "policy_kind p =
     (case p of SurplusFee _ _ \<Rightarrow> ''surplus''
      | PriceImprovement _ _ _ \<Rightarrow> ''priceImprovement''
      | VolumeFee _ \<Rightarrow> ''volume'')"

subsection \<open>Order\<close>

text \<open>
  The field \<open>klass\<close> is declared with \<open>Field(..., alias="class")\<close>: validation reads
  the key \<open>class\<close> (and not \<open>klass\<close>: the model does not set \<open>populate_by_name\<close>).
\<close>

definition decode_Order :: "('f, 'dt) conversions \<Rightarrow> 'f json \<Rightarrow> error + 'f Order" where
  "decode_Order L j =
     (case j of
        JObj kvs \<Rightarrow>
          bind_r (required kvs ''uid'' decode_OrderUID) (\<lambda>uid.
          bind_r (required kvs ''sellToken'' decode_Address) (\<lambda>sellToken.
          bind_r (required kvs ''buyToken'' decode_Address) (\<lambda>buyToken.
          bind_r (required kvs ''sellAmount'' decode_TokenAmount) (\<lambda>sellAmount.
          bind_r (required kvs ''buyAmount'' decode_TokenAmount) (\<lambda>buyAmount.
          bind_r (required kvs ''created'' validate_str) (\<lambda>created.
          bind_r (required kvs ''validTo'' (validate_int L)) (\<lambda>validTo.
          bind_r (required kvs ''kind'' (validate_literal OrderKind_values)) (\<lambda>kind.
          bind_r (required kvs ''receiver'' decode_Address) (\<lambda>receiver.
          bind_r (required kvs ''owner'' decode_Address) (\<lambda>owner.
          bind_r (required kvs ''partiallyFillable'' (validate_bool L)) (\<lambda>partiallyFillable.
          bind_r (required kvs ''executed'' decode_TokenAmount) (\<lambda>executed.
          bind_r (required kvs ''preInteractions'' (validate_list decode_Interaction)) (\<lambda>preInteractions.
          bind_r (required kvs ''postInteractions'' (validate_list decode_Interaction)) (\<lambda>postInteractions.
          bind_r (required kvs ''sellTokenBalance'' (validate_literal SellTokenSource_values)) (\<lambda>sellTokenBalance.
          bind_r (required kvs ''buyTokenBalance'' (validate_literal BuyTokenSource_values)) (\<lambda>buyTokenBalance.
          bind_r (required kvs ''class'' (validate_literal OrderClass_values)) (\<lambda>klass.
          bind_r (required kvs ''appData'' validate_str) (\<lambda>appData.
          bind_r (required kvs ''signingScheme'' (validate_literal SigningScheme_values)) (\<lambda>signingScheme.
          bind_r (required kvs ''signature'' validate_str) (\<lambda>signature.
          bind_r (required kvs ''protocolFees'' (validate_list (decode_FeePolicy L))) (\<lambda>protocolFees.
          bind_r (with_default kvs ''quote'' (validate_optional decode_Quote) None) (\<lambda>quote.
          Inr \<lparr> o_uid = uid, o_sellToken = sellToken, o_buyToken = buyToken,
                o_sellAmount = sellAmount, o_buyAmount = buyAmount, o_created = created,
                o_validTo = validTo, o_kind = kind, o_receiver = receiver, o_owner = owner,
                o_partiallyFillable = partiallyFillable, o_executed = executed,
                o_preInteractions = preInteractions, o_postInteractions = postInteractions,
                o_sellTokenBalance = sellTokenBalance, o_buyTokenBalance = buyTokenBalance,
                o_klass = klass, o_appData = appData, o_signingScheme = signingScheme,
                o_signature = signature, o_protocolFees = protocolFees,
                o_quote = quote \<rparr>))))))))))))))))))))))
      | _ \<Rightarrow> Inl ValidationError)"

subsection \<open>Solution\<close>

definition decode_TradeFulfillment :: "'f json \<Rightarrow> error + TradeFulfillment" where
  "decode_TradeFulfillment j =
     (case j of
        JObj kvs \<Rightarrow>
          bind_r (with_default kvs ''kind'' (validate_literal [(''fulfillment'', Fulfillment)]) Fulfillment) (\<lambda>k.
          bind_r (required kvs ''order'' decode_OrderUID) (\<lambda>ord.
          bind_r (required kvs ''executedAmount'' decode_TokenAmount) (\<lambda>a.
          bind_r (with_default kvs ''fee'' (validate_optional decode_TokenAmount) None) (\<lambda>f.
          Inr \<lparr> tf_kind = k, tf_order = ord, tf_executedAmount = a, tf_fee = f \<rparr>))))
      | _ \<Rightarrow> Inl ValidationError)"

definition decode_LiquidityInteraction ::
  "('f, 'dt) conversions \<Rightarrow> 'f json \<Rightarrow> error + LiquidityInteraction" where
  "decode_LiquidityInteraction L j =
     (case j of
        JObj kvs \<Rightarrow>
          bind_r (with_default kvs ''kind'' (validate_literal [(''liquidity'', Liquidity)]) Liquidity) (\<lambda>k.
          bind_r (required kvs ''internalize'' (validate_bool L)) (\<lambda>i.
          bind_r (required kvs ''id'' validate_str) (\<lambda>lid.
          bind_r (required kvs ''inputToken'' decode_Address) (\<lambda>it.
          bind_r (required kvs ''outputToken'' decode_Address) (\<lambda>ot.
          bind_r (required kvs ''inputAmount'' decode_TokenAmount) (\<lambda>ia.
          bind_r (required kvs ''outputAmount'' decode_TokenAmount) (\<lambda>oa.
          Inr \<lparr> li_kind = k, li_internalize = i, li_id = lid, li_inputToken = it,
                li_outputToken = ot, li_inputAmount = ia, li_outputAmount = oa \<rparr>)))))))
      | _ \<Rightarrow> Inl ValidationError)"

definition decode_Solution :: "('f, 'dt) conversions \<Rightarrow> 'f json \<Rightarrow> error + Solution" where
  "decode_Solution L j =
     (case j of
        JObj kvs \<Rightarrow>
          bind_r (required kvs ''id'' (validate_int L)) (\<lambda>sid.
          bind_r (required kvs ''prices'' (validate_dict decode_TokenAmount)) (\<lambda>prices.
          bind_r (required kvs ''trades'' (validate_list decode_TradeFulfillment)) (\<lambda>trades.
          bind_r (required kvs ''interactions'' (validate_list (decode_LiquidityInteraction L))) (\<lambda>interactions.
          bind_r (with_default kvs ''gas'' (validate_optional (validate_int L)) None) (\<lambda>gas.
          Inr \<lparr> s_id = sid, s_prices = prices, s_trades = trades,
                s_interactions = interactions, s_gas = gas \<rparr>)))))
      | _ \<Rightarrow> Inl ValidationError)"

subsection \<open>Encoding\<close>

text \<open>
  No handler writes an order or a fee policy, and models.py has no encoder of its own:
  the encoding is the one the library derives from the declarations, the JSON that
  \<open>model_dump_json\<close> writes. Every declared field is written, in declaration order,
  \<open>None\<close> as \<open>null\<close>. \<open>by_alias\<close> is the dump's parameter of that name: with it a field
  is written under its alias, as the framework writes responses; without it (the
  library's default) under its attribute name. A float is written as a number when it is
  finite; an infinity or a NaN has no JSON number and is written as \<open>null\<close>. Which
  floats are finite is the parameter \<open>fin\<close> (Python's \<open>math.isfinite\<close>).
\<close>

definition OrderKind_name :: "OrderKind \<Rightarrow> string" where
  "OrderKind_name k = (case k of Buy \<Rightarrow> ''buy'' | Sell \<Rightarrow> ''sell'')"

definition SellTokenSource_name :: "SellTokenSource \<Rightarrow> string" where
  "SellTokenSource_name k =
     (case k of SellErc20 \<Rightarrow> ''erc20'' | SellInternal \<Rightarrow> ''internal'' | SellExternal \<Rightarrow> ''external'')"

definition BuyTokenSource_name :: "BuyTokenSource \<Rightarrow> string" where
  "BuyTokenSource_name k = (case k of BuyErc20 \<Rightarrow> ''erc20'' | BuyInternal \<Rightarrow> ''internal'')"

definition OrderClass_name :: "OrderClass \<Rightarrow> string" where
  "OrderClass_name k = (case k of Market \<Rightarrow> ''market'' | Limit \<Rightarrow> ''limit'')"

definition SigningScheme_name :: "SigningScheme \<Rightarrow> string" where
  "SigningScheme_name k =
     (case k of Eip712 \<Rightarrow> ''eip712'' | Ethsign \<Rightarrow> ''ethsign'' | Presign \<Rightarrow> ''presign''
      | Eip1271 \<Rightarrow> ''eip1271'')"

definition encode_optional :: "('a \<Rightarrow> 'f json) \<Rightarrow> 'a option \<Rightarrow> 'f json" where
  "encode_optional enc x = (case x of None \<Rightarrow> JNull | Some y \<Rightarrow> enc y)"

definition encode_Interaction :: "Interaction \<Rightarrow> 'f json" where
  "encode_Interaction i =
     JObj [(''target'', JStr (i_target i)), (''value'', JStr (i_value i)),
           (''callData'', JStr (i_callData i))]"

definition encode_Quote :: "Quote \<Rightarrow> 'f json" where
  "encode_Quote q =
     JObj [(''sellAmount'', JStr (q_sellAmount q)), (''buyAmount'', JStr (q_buyAmount q)),
           (''fee'', JStr (q_fee q)), (''solver'', JStr (q_solver q))]"

definition encode_float :: "('f \<Rightarrow> bool) \<Rightarrow> 'f \<Rightarrow> 'f json" where
  "encode_float fin f = (if fin f then JFloat f else JNull)"

definition encode_FeePolicy :: "('f \<Rightarrow> bool) \<Rightarrow> 'f FeePolicy \<Rightarrow> 'f json" where
  "encode_FeePolicy fin p =
     (case p of
        SurplusFee m f \<Rightarrow>
          JObj [(''kind'', JStr ''surplus''), (''maxVolumeFactor'', encode_float fin m),
                (''factor'', encode_float fin f)]
      | PriceImprovement m f q \<Rightarrow>
          JObj [(''kind'', JStr ''priceImprovement''), (''maxVolumeFactor'', encode_float fin m),
                (''factor'', encode_float fin f), (''quote'', encode_Quote q)]
      | VolumeFee f \<Rightarrow>
          JObj [(''kind'', JStr ''volume''), (''factor'', encode_float fin f)])"

text \<open>The fee policies all of whose factors are finite floats.\<close>

definition policy_finite :: "('f \<Rightarrow> bool) \<Rightarrow> 'f FeePolicy \<Rightarrow> bool" where
  "policy_finite fin p =
     (case p of
        SurplusFee m f \<Rightarrow> fin m \<and> fin f
      | PriceImprovement m f q \<Rightarrow> fin m \<and> fin f
      | VolumeFee f \<Rightarrow> fin f)"

definition encode_Order :: "('f \<Rightarrow> bool) \<Rightarrow> bool \<Rightarrow> 'f Order \<Rightarrow> 'f json" where
  "encode_Order fin by_alias x =
     JObj [(''uid'', JStr (o_uid x)),
           (''sellToken'', JStr (o_sellToken x)),
           (''buyToken'', JStr (o_buyToken x)),
           (''sellAmount'', JStr (o_sellAmount x)),
           (''buyAmount'', JStr (o_buyAmount x)),
           (''created'', JStr (o_created x)),
           (''validTo'', JInt (o_validTo x)),
           (''kind'', JStr (OrderKind_name (o_kind x))),
           (''receiver'', JStr (o_receiver x)),
           (''owner'', JStr (o_owner x)),
           (''partiallyFillable'', JBool (o_partiallyFillable x)),
           (''executed'', JStr (o_executed x)),
           (''preInteractions'', JArr (map encode_Interaction (o_preInteractions x))),
           (''postInteractions'', JArr (map encode_Interaction (o_postInteractions x))),
           (''sellTokenBalance'', JStr (SellTokenSource_name (o_sellTokenBalance x))),
           (''buyTokenBalance'', JStr (BuyTokenSource_name (o_buyTokenBalance x))),
           ((if by_alias then ''class'' else ''klass''), JStr (OrderClass_name (o_klass x))),
           (''appData'', JStr (o_appData x)),
           (''signingScheme'', JStr (SigningScheme_name (o_signingScheme x))),
           (''signature'', JStr (o_signature x)),
           (''protocolFees'', JArr (map (encode_FeePolicy fin) (o_protocolFees x))),
           (''quote'', encode_optional encode_Quote (o_quote x))]"

definition encode_TradeFulfillment :: "TradeFulfillment \<Rightarrow> 'f json" where
  "encode_TradeFulfillment t =
     JObj [(''kind'', JStr (case tf_kind t of Fulfillment \<Rightarrow> ''fulfillment'')),
           (''order'', JStr (tf_order t)),
           (''executedAmount'', JStr (tf_executedAmount t)),
           (''fee'', encode_optional JStr (tf_fee t))]"

definition encode_LiquidityInteraction :: "LiquidityInteraction \<Rightarrow> 'f json" where
  "encode_LiquidityInteraction i =
     JObj [(''kind'', JStr (case li_kind i of Liquidity \<Rightarrow> ''liquidity'')),
           (''internalize'', JBool (li_internalize i)),
           (''id'', JStr (li_id i)),
           (''inputToken'', JStr (li_inputToken i)),
           (''outputToken'', JStr (li_outputToken i)),
           (''inputAmount'', JStr (li_inputAmount i)),
           (''outputAmount'', JStr (li_outputAmount i))]"

definition encode_Solution :: "Solution \<Rightarrow> 'f json" where
  "encode_Solution s =
     JObj [(''id'', JInt (s_id s)),
           (''prices'', JObj (map (\<lambda>kv. (fst kv, JStr (snd kv))) (s_prices s))),
           (''trades'', JArr (map encode_TradeFulfillment (s_trades s))),
           (''interactions'', JArr (map encode_LiquidityInteraction (s_interactions s))),
           (''gas'', encode_optional JInt (s_gas s))]"

subsection \<open>The solve request\<close>

definition decode_SolverTokenBalance :: "'f json \<Rightarrow> error + SolverTokenBalance" where
  "decode_SolverTokenBalance j =
     (case j of
        JObj kvs \<Rightarrow>
          bind_r (required kvs ''balance'' decode_TokenAmount) (\<lambda>b. Inr \<lparr> balance = b \<rparr>)
      | _ \<Rightarrow> Inl ValidationError)"

definition decode_SolverLiquidity :: "'f json \<Rightarrow> error + SolverLiquidity" where
  "decode_SolverLiquidity j =
     (case j of
        JObj kvs \<Rightarrow>
          bind_r (required kvs ''address'' decode_Address) (\<lambda>a.
          bind_r (required kvs ''fee'' validate_str) (\<lambda>f.
          bind_r (required kvs ''gasEstimate'' decode_TokenAmount) (\<lambda>g.
          bind_r (required kvs ''id'' validate_str) (\<lambda>lid.
          bind_r (required kvs ''kind'' validate_str) (\<lambda>k.
          bind_r (required kvs ''router'' decode_Address) (\<lambda>r.
          bind_r (required kvs ''tokens'' (validate_dict decode_SolverTokenBalance)) (\<lambda>t.
          Inr \<lparr> sl_address = a, sl_fee = f, sl_gasEstimate = g, sl_id = lid, sl_kind = k,
                sl_router = r, sl_tokens = t \<rparr>)))))))
      | _ \<Rightarrow> Inl ValidationError)"

definition decode_SolverTokenInfo :: "('f, 'dt) conversions \<Rightarrow> 'f json \<Rightarrow> error + SolverTokenInfo" where
  "decode_SolverTokenInfo L j =
     (case j of
        JObj kvs \<Rightarrow>
          bind_r (required kvs ''availableBalance'' decode_TokenAmount) (\<lambda>a.
          bind_r (with_default kvs ''decimals'' (validate_optional (validate_int L)) None) (\<lambda>d.
          bind_r (with_default kvs ''referencePrice'' (validate_optional decode_TokenAmount) None) (\<lambda>r.
          bind_r (with_default kvs ''symbol'' (validate_optional validate_str) None) (\<lambda>s.
          bind_r (required kvs ''trusted'' (validate_bool L)) (\<lambda>t.
          Inr \<lparr> availableBalance = a, decimals = d, referencePrice = r, symbol = s,
                trusted = t \<rparr>)))))
      | _ \<Rightarrow> Inl ValidationError)"

definition decode_SolverOrder :: "('f, 'dt) conversions \<Rightarrow> 'f json \<Rightarrow> error + 'f SolverOrder" where
  "decode_SolverOrder L j =
     (case j of
        JObj kvs \<Rightarrow>
          bind_r (required kvs ''appData'' validate_str) (\<lambda>appData.
          bind_r (required kvs ''buyAmount'' decode_TokenAmount) (\<lambda>buyAmount.
          bind_r (required kvs ''buyToken'' decode_Address) (\<lambda>buyToken.
          bind_r (required kvs ''buyTokenDestination'' validate_str) (\<lambda>buyTokenDestination.
          bind_r (required kvs ''class'' (validate_literal OrderClass_values)) (\<lambda>klass.
          bind_r (required kvs ''fullBuyAmount'' decode_TokenAmount) (\<lambda>fullBuyAmount.
          bind_r (required kvs ''fullSellAmount'' decode_TokenAmount) (\<lambda>fullSellAmount.
          bind_r (required kvs ''kind'' (validate_literal OrderKind_values)) (\<lambda>kind.
          bind_r (required kvs ''owner'' decode_Address) (\<lambda>owner.
          bind_r (required kvs ''partiallyFillable'' (validate_bool L)) (\<lambda>partiallyFillable.
          bind_r (with_default kvs ''postInteractions'' validate_any_list []) (\<lambda>postInteractions.
          bind_r (with_default kvs ''preInteractions'' validate_any_list []) (\<lambda>preInteractions.
          bind_r (required kvs ''sellAmount'' decode_TokenAmount) (\<lambda>sellAmount.
          bind_r (required kvs ''sellToken'' decode_Address) (\<lambda>sellToken.
          bind_r (required kvs ''sellTokenSource'' validate_str) (\<lambda>sellTokenSource.
          bind_r (required kvs ''signature'' validate_str) (\<lambda>signature.
          bind_r (required kvs ''signingScheme'' validate_str) (\<lambda>signingScheme.
          bind_r (required kvs ''uid'' decode_OrderUID) (\<lambda>uid.
          bind_r (required kvs ''validTo'' (validate_int L)) (\<lambda>validTo.
          bind_r (with_default kvs ''receiver'' (validate_optional decode_Address) None) (\<lambda>receiver.
          bind_r (with_default kvs ''created'' (validate_optional validate_str) None) (\<lambda>created.
          bind_r (with_default kvs ''executed'' (validate_optional decode_TokenAmount) None) (\<lambda>executed.
          bind_r (with_default kvs ''protocolFees'' validate_any_list []) (\<lambda>protocolFees.
          Inr \<lparr> so_appData = appData, so_buyAmount = buyAmount, so_buyToken = buyToken,
                so_buyTokenDestination = buyTokenDestination, so_klass = klass,
                so_fullBuyAmount = fullBuyAmount, so_fullSellAmount = fullSellAmount,
                so_kind = kind, so_owner = owner, so_partiallyFillable = partiallyFillable,
                so_postInteractions = postInteractions, so_preInteractions = preInteractions,
                so_sellAmount = sellAmount, so_sellToken = sellToken,
                so_sellTokenSource = sellTokenSource, so_signature = signature,
                so_signingScheme = signingScheme, so_uid = uid, so_validTo = validTo,
                so_receiver = receiver, so_created = created, so_executed = executed,
                so_protocolFees = protocolFees \<rparr>)))))))))))))))))))))))
      | _ \<Rightarrow> Inl ValidationError)"

text \<open>
  \<open>anystr_to_int\<close>, the validator that runs on the raw \<open>id\<close> before the field's own
  validation: \<open>None\<close> is returned as it is, anything else goes through Python's
  \<open>int\<close>. On a list or an object \<open>int\<close> raises \<open>TypeError\<close>.
\<close>

definition anystr_to_int :: "('f, 'dt) conversions \<Rightarrow> 'f json \<Rightarrow> error + 'f json" where
  "anystr_to_int L v =
     (case v of
        JNull \<Rightarrow> Inr JNull
      | JBool b \<Rightarrow> Inr (JInt (if b then 1 else 0))
      | JInt i \<Rightarrow> Inr (JInt i)
      | JFloat f \<Rightarrow> bind_r (py_int_of_float L f) (\<lambda>i. Inr (JInt i))
      | JStr s \<Rightarrow> bind_r (py_int s) (\<lambda>i. Inr (JInt i))
      | JArr _ \<Rightarrow> Inl TypeError
      | JObj _ \<Rightarrow> Inl TypeError)"

text \<open>
  The library turns a \<open>ValueError\<close> raised by a validator into a validation error; any
  other exception leaves the validation as it is. The value the validator returns is
  then validated as \<open>Optional[int]\<close>.
\<close>

definition validate_id :: "('f, 'dt) conversions \<Rightarrow> 'f json \<Rightarrow> error + int option" where
  "validate_id L v =
     (case anystr_to_int L v of
        Inl e \<Rightarrow> Inl (if e = ValueError then ValidationError else e)
      | Inr w \<Rightarrow> validate_optional (validate_int L) w)"

text \<open>
  The \<open>id\<close> is read first here: it is the one field whose validation can raise an
  exception, which ends the validation whatever the other fields hold; every other
  failure is a validation error, in whichever field it lies.
\<close>

definition decode_SolverRequest ::
  "('f, 'dt) conversions \<Rightarrow> 'f json \<Rightarrow> error + ('f, 'dt) SolverRequest" where
  "decode_SolverRequest L j =
     (case j of
        JObj kvs \<Rightarrow>
          bind_r (with_default kvs ''id'' (validate_id L) None) (\<lambda>rid.
          bind_r (required kvs ''deadline'' (validate_datetime L)) (\<lambda>deadline.
          bind_r (required kvs ''effectiveGasPrice'' decode_TokenAmount) (\<lambda>effectiveGasPrice.
          bind_r (required kvs ''liquidity'' (validate_list decode_SolverLiquidity)) (\<lambda>liquidity.
          bind_r (required kvs ''orders'' (validate_list (decode_SolverOrder L))) (\<lambda>orders.
          bind_r (required kvs ''surplusCapturingJitOrderOwners'' (validate_list decode_Address)) (\<lambda>owners.
          bind_r (required kvs ''tokens'' (validate_dict (decode_SolverTokenInfo L))) (\<lambda>tokens.
          Inr \<lparr> sr_deadline = deadline, sr_effectiveGasPrice = effectiveGasPrice, sr_id = rid,
                sr_liquidity = liquidity, sr_orders = orders,
                sr_surplusCapturingJitOrderOwners = owners, sr_tokens = tokens \<rparr>)))))))
      | _ \<Rightarrow> Inl ValidationError)"

text \<open>\<open>POST /solve\<close>: the body is validated as a \<open>SolverRequest\<close> and handed to the handler.\<close>

definition post_solve :: "('f, 'dt) conversions \<Rightarrow> 'f json \<Rightarrow> error + SolveResponse" where
  "post_solve L body = bind_r (decode_SolverRequest L body) solve_auction"

section \<open>Example values\<close>

text \<open>
  An instance of the conversion parameters for the examples below: floats and timestamps
  are carried as their text, a timestamp is taken from a string, a string of digits is
  an integer, and every other conversion is refused.
\<close>

definition example_conversions :: "(string, string) conversions" where
  "example_conversions =
     \<lparr> str_as_int = (\<lambda>s. if s \<noteq> [] \<and> list_all py_isdigit s then Some (int (digits_value s)) else None),
       float_as_int = (\<lambda>f. None),
       str_as_bool = (\<lambda>s. None),
       float_as_bool = (\<lambda>f. None),
       int_as_float = (\<lambda>i. None),
       bool_as_float = (\<lambda>b. None),
       str_as_float = (\<lambda>s. None),
       to_datetime = (\<lambda>j. case j of JStr s \<Rightarrow> Some s | _ \<Rightarrow> None),
       py_int_of_float = (\<lambda>f. Inl ValueError) \<rparr>"

definition example_order :: "string SolverOrder" where
  "example_order =
     \<lparr> so_appData = ''0x00'',
       so_buyAmount = ''950'',
       so_buyToken = ''0xbb'',
       so_buyTokenDestination = ''erc20'',
       so_klass = Limit,
       so_fullBuyAmount = ''950'',
       so_fullSellAmount = ''1000'',
       so_kind = Buy,
       so_owner = ''0xcc'',
       so_partiallyFillable = False,
       so_postInteractions = [],
       so_preInteractions = [],
       so_sellAmount = ''1000'',
       so_sellToken = ''0xaa'',
       so_sellTokenSource = ''erc20'',
       so_signature = ''0x01'',
       so_signingScheme = ''eip712'',
       so_uid = ''0x30cf'',
       so_validTo = 1754493511,
       so_receiver = None,
       so_created = None,
       so_executed = None,
       so_protocolFees = [] \<rparr>"

definition example_liquidity :: SolverLiquidity where
  "example_liquidity =
     \<lparr> sl_address = ''0xdd'',
       sl_fee = ''0.003'',
       sl_gasEstimate = ''110000'',
       sl_id = ''7'',
       sl_kind = ''constantProduct'',
       sl_router = ''0xee'',
       sl_tokens = [(''0xaa'', \<lparr> balance = ''5000'' \<rparr>), (''0xbb'', \<lparr> balance = ''6000'' \<rparr>)] \<rparr>"

definition example_request ::
  "int option \<Rightarrow> string SolverOrder list \<Rightarrow> SolverLiquidity list \<Rightarrow> (string, string) SolverRequest" where
  "example_request rid os ls =
     \<lparr> sr_deadline = ''2025-08-06T15:18:31Z'',
       sr_effectiveGasPrice = ''15000000000'',
       sr_id = rid,
       sr_liquidity = ls,
       sr_orders = os,
       sr_surplusCapturingJitOrderOwners = [],
       sr_tokens = [(''0xaa'', \<lparr> availableBalance = ''1'', decimals = None, referencePrice = None,
                       symbol = None, trusted = True \<rparr>)] \<rparr>"

text \<open>Request bodies for the examples: the JSON of the values above.\<close>

definition example_order_json :: "string json" where
  "example_order_json =
     JObj [(''appData'', JStr ''0x00''),
           (''buyAmount'', JStr ''950''),
           (''buyToken'', JStr ''0xbb''),
           (''buyTokenDestination'', JStr ''erc20''),
           (''class'', JStr ''limit''),
           (''fullBuyAmount'', JStr ''950''),
           (''fullSellAmount'', JStr ''1000''),
           (''kind'', JStr ''buy''),
           (''owner'', JStr ''0xcc''),
           (''partiallyFillable'', JBool False),
           (''postInteractions'', JArr []),
           (''preInteractions'', JArr []),
           (''sellAmount'', JStr ''1000''),
           (''sellToken'', JStr ''0xaa''),
           (''sellTokenSource'', JStr ''erc20''),
           (''signature'', JStr ''0x01''),
           (''signingScheme'', JStr ''eip712''),
           (''uid'', JStr ''0x30cf''),
           (''validTo'', JInt 1754493511)]"

definition example_liquidity_json :: "string json" where
  "example_liquidity_json =
     JObj [(''address'', JStr ''0xdd''),
           (''fee'', JStr ''0.003''),
           (''gasEstimate'', JStr ''110000''),
           (''id'', JStr ''7''),
           (''kind'', JStr ''constantProduct''),
           (''router'', JStr ''0xee''),
           (''tokens'', JObj [(''0xaa'', JObj [(''balance'', JStr ''5000'')]),
                              (''0xbb'', JObj [(''balance'', JStr ''6000'')])])]"

definition example_body ::
  "string json \<Rightarrow> string json list \<Rightarrow> string json list \<Rightarrow> (string \<times> string json) list" where
  "example_body rid os ls =
     [(''deadline'', JStr ''2025-08-06T15:18:31Z''),
      (''effectiveGasPrice'', JStr ''15000000000''),
      (''id'', rid),
      (''liquidity'', JArr ls),
      (''orders'', JArr os),
      (''surplusCapturingJitOrderOwners'', JArr []),
      (''tokens'', JObj [(''0xaa'', JObj [(''availableBalance'', JStr ''1''), (''trusted'', JInt 1)])])]"

text \<open>A solution as a driver may write it: the optional \<open>gas\<close> left out.\<close>

definition bare_solution :: "string json" where
  "bare_solution =
     JObj [(''id'', JInt 0), (''prices'', JObj [(''0xaa'', JStr ''950'')]),
           (''trades'', JArr []), (''interactions'', JArr [])]"

text \<open>
  For the examples, where a float is carried as its text: the finite floats are those
  whose text is not one of Python's three for the others.
\<close>

definition example_isfinite :: "string \<Rightarrow> bool" where
  "example_isfinite f = (f \<notin> {''inf'', ''-inf'', ''nan''})"

definition example_full_order :: "string Order" where
  "example_full_order =
     \<lparr> o_uid = ''0x30cf'',
       o_sellToken = ''0xaa'',
       o_buyToken = ''0xbb'',
       o_sellAmount = ''1000'',
       o_buyAmount = ''950'',
       o_created = ''123456'',
       o_validTo = 1754493511,
       o_kind = Sell,
       o_receiver = ''0xcc'',
       o_owner = ''0xcc'',
       o_partiallyFillable = False,
       o_executed = ''0'',
       o_preInteractions = [\<lparr> i_target = ''0xdd'', i_value = ''0'', i_callData = ''0x'' \<rparr>],
       o_postInteractions = [],
       o_sellTokenBalance = SellErc20,
       o_buyTokenBalance = BuyErc20,
       o_klass = Limit,
       o_appData = ''0x00'',
       o_signingScheme = Eip712,
       o_signature = ''0x01'',
       o_protocolFees =
         [SurplusFee ''0.1'' ''0.5'',
          PriceImprovement ''0.01'' ''0.5''
            \<lparr> q_sellAmount = ''1000'', q_buyAmount = ''960'', q_fee = ''1'', q_solver = ''0xee'' \<rparr>,
          VolumeFee ''0.5''],
       o_quote = None \<rparr>"

section \<open>Auxiliary facts\<close>

lemma bind_r_Inr [simp]: "bind_r (Inr x) f = f x"
  by (simp add: bind_r_def)

lemma bind_r_Inl [simp]: "bind_r (Inl e) f = Inl e"
  by (simp add: bind_r_def)

lemma bind_r_eq_Inr: "bind_r m f = Inr y \<longleftrightarrow> (\<exists>x. m = Inr x \<and> f x = Inr y)"
  by (cases m) simp_all

subsection \<open>Decimal numerals\<close>

lemma py_isdigit_digit_char: "d < 10 \<Longrightarrow> py_isdigit (digit_char d)"
  by (simp add: py_isdigit_def digit_char_def)

lemma digit_val_digit_char: "d < 10 \<Longrightarrow> digit_val (digit_char d) = d"
  by (simp add: digit_val_def digit_char_def)

lemma dec_digits_nonempty: "dec_digits n \<noteq> []"
  by (subst dec_digits.simps) simp

lemma dec_digits_all_digits: "list_all py_isdigit (dec_digits n)"
proof (induction n rule: dec_digits.induct)
  case (1 n)
  show ?case
  proof (cases "n < 10")
    case True
    then show ?thesis
      by (subst dec_digits.simps) (simp add: py_isdigit_digit_char)
  next
    case False
    with 1 show ?thesis
      by (subst dec_digits.simps) (simp add: py_isdigit_digit_char)
  qed
qed

lemma digits_value_snoc: "digits_value (ds @ [c]) = 10 * digits_value ds + digit_val c"
  by (simp add: digits_value_def)

lemma digits_value_dec_digits: "digits_value (dec_digits n) = n"
proof (induction n rule: dec_digits.induct)
  case (1 n)
  show ?case
  proof (cases "n < 10")
    case True
    then show ?thesis
      by (subst dec_digits.simps) (simp add: digits_value_def digit_val_digit_char)
  next
    case False
    with 1 show ?thesis
      by (subst dec_digits.simps) (simp add: digits_value_snoc digit_val_digit_char)
  qed
qed

lemma underscores_ok_digits: "ds \<noteq> [] \<Longrightarrow> list_all py_isdigit ds \<Longrightarrow> underscores_ok ds"
proof (induction ds rule: underscores_ok.induct)
  case 1
  then show ?case by simp
next
  case (2 c)
  then show ?case by simp
next
  case (3 c d cs)
  then have "d \<noteq> CHR ''_''" by (auto simp: py_isdigit_def)
  with 3 show ?case by simp
qed

lemma digit_not_space: "py_isdigit c \<Longrightarrow> \<not> py_isspace c"
  by (auto simp: py_isdigit_def py_isspace_def)

lemma digit_not_sign: "py_isdigit c \<Longrightarrow> c \<noteq> CHR ''+'' \<and> c \<noteq> CHR ''-''"
  by (auto simp: py_isdigit_def)

text \<open>\<open>int\<close> reads a plain digit string of at most 4300 digits as the number it denotes.\<close>

lemma py_int_digits:
  assumes "ds \<noteq> []" and "list_all py_isdigit ds" and "length ds \<le> max_str_digits"
  shows "py_int ds = Inr (int (digits_value ds))"
proof -
  obtain c cs where ds: "ds = c # cs" using assms(1) by (cases ds) auto
  have c: "py_isdigit c" using assms(2) ds by simp
  have s1: "dropWhile py_isspace ds = ds"
    using c ds by (simp add: digit_not_space)
  have all: "\<forall>x\<in>set ds. py_isdigit x \<or> x = CHR ''_''"
    using assms(2) by (simp add: list_all_iff)
  have body: "takeWhile (\<lambda>c. py_isdigit c \<or> c = CHR ''_'') ds = ds"
    using all by (simp add: takeWhile_eq_all_conv)
  have rest: "dropWhile (\<lambda>c. py_isdigit c \<or> c = CHR ''_'') ds = []"
    using all by simp
  have filt: "filter py_isdigit ds = ds"
    using assms(2) by (simp add: list_all_iff)
  have sign: "c \<noteq> CHR ''+''" "c \<noteq> CHR ''-''"
    using digit_not_sign [OF c] by simp_all
  have ok: "underscores_ok ds"
    using assms(1,2) by (rule underscores_ok_digits)
  have "py_int (c # cs) = Inr (int (digits_value (c # cs)))"
    unfolding py_int_def
    using s1 body rest filt sign ok assms(3) unfolding ds
    by (simp add: Let_def)
  then show ?thesis by (simp add: ds)
qed

lemma py_int_dec_digits:
  "length (dec_digits n) \<le> max_str_digits \<Longrightarrow> py_int (dec_digits n) = Inr (int n)"
  using py_int_digits [of "dec_digits n"]
  by (simp add: dec_digits_nonempty dec_digits_all_digits digits_value_dec_digits)

lemma length_dec_digits_mono: "m \<le> n \<Longrightarrow> length (dec_digits m) \<le> length (dec_digits n)"
proof (induction n arbitrary: m rule: dec_digits.induct)
  case (1 n)
  show ?case
  proof (cases "m < 10")
    case True
    then have "length (dec_digits m) = 1" by (subst dec_digits.simps) simp
    moreover have "1 \<le> length (dec_digits n)"
      using dec_digits_nonempty [of n] by (cases "dec_digits n") auto
    ultimately show ?thesis by simp
  next
    case False
    then have n: "\<not> n < 10" using 1(2) by simp
    have "m div 10 \<le> n div 10" using 1(2) by (rule div_le_mono)
    then have "length (dec_digits (m div 10)) \<le> length (dec_digits (n div 10))"
      using 1(1) n by simp
    then show ?thesis
      using False n by (subst dec_digits.simps, subst (2) dec_digits.simps) simp
  qed
qed

lemma py_str_nat:
  "length (dec_digits n) \<le> max_str_digits \<Longrightarrow> py_str (int n) = Inr (dec_digits n)"
  by (simp add: py_str_def Let_def)

subsection \<open>The quote handler\<close>

text \<open>
  What the handler computes into its two local variables, for an amount written as a
  plain decimal numeral: the floors the specification names, in exact integer
  arithmetic.
\<close>

lemma quote_amounts_sell:
  assumes "length (dec_digits n) \<le> max_str_digits"
  shows "quote_amounts Sell (dec_digits n) = Inr (dec_digits n, dec_digits (n * 95 div 100))"
proof -
  have le: "n * 95 div 100 \<le> n" by simp
  have len: "length (dec_digits (n * 95 div 100)) \<le> max_str_digits"
    using length_dec_digits_mono [OF le] assms by simp
  have eq: "int n * 95 div 100 = int (n * 95 div 100)"
    by (simp add: zdiv_int)
  have out: "py_str (int n * 95 div 100) = Inr (dec_digits (n * 95 div 100))"
    unfolding eq by (rule py_str_nat [OF len])
  show ?thesis
    unfolding quote_amounts_def
    by (simp only: py_int_dec_digits [OF assms] out bind_r_Inr if_True simp_thms)
qed

lemma quote_amounts_buy:
  assumes "length (dec_digits (n * 100 div 95)) \<le> max_str_digits"
  shows "quote_amounts Buy (dec_digits n) = Inr (dec_digits (n * 100 div 95), dec_digits n)"
proof -
  have le: "n \<le> n * 100 div 95" by simp
  have len: "length (dec_digits n) \<le> max_str_digits"
    using length_dec_digits_mono [OF le] assms by simp
  have eq: "int n * 100 div 95 = int (n * 100 div 95)"
    by (simp add: zdiv_int)
  have out: "py_str (int n * 100 div 95) = Inr (dec_digits (n * 100 div 95))"
    unfolding eq by (rule py_str_nat [OF assms])
  have k: "(Buy = Sell) = False" by simp
  show ?thesis
    unfolding quote_amounts_def
    by (simp only: py_int_dec_digits [OF len] out bind_r_Inr k if_False)
qed

lemma get_mock_address_0:
  "get_mock_address 0 = Inr ''0x111111111111111111111111111111111111110aBcDeF''"
  by code_simp

text \<open>Whenever the two amounts can be computed, the response is the same fixed record.\<close>

lemma get_quote_fixed:
  assumes "quote_amounts kind amount = Inr p"
  shows "get_quote sellToken buyToken kind amount deadline =
     Inr \<lparr> qr_clearingPrices =
             dict2 sellToken ''1000000000000000000'' buyToken ''950000000000000000'',
           qr_preInteractions = [],
           qr_interactions = [],
           qr_solver = ''0x111111111111111111111111111111111111110aBcDeF'',
           qr_gas = 150000,
           qr_txOrigin = None,
           qr_jitOrders = [] \<rparr>"
  by (cases p) (simp add: get_quote_def assms get_mock_address_0)

lemma quote_amounts_sell_100: "quote_amounts Sell ''100'' = Inr (''100'', ''95'')"
  by code_simp

lemma quote_amounts_sell_200: "quote_amounts Sell ''200'' = Inr (''200'', ''190'')"
  by code_simp

subsection \<open>The solve handler\<close>

lemma solve_auction_cases:
  "solve_auction r =
     (case sr_orders r of [] \<Rightarrow> Inr \<lparr> solutions = [] \<rparr>
      | ord # os \<Rightarrow> (case sr_liquidity r of [] \<Rightarrow> Inr \<lparr> solutions = [] \<rparr>
          | liq # ls \<Rightarrow> Inr \<lparr> solutions = [mock_solution ord liq] \<rparr>))"
  by (simp add: solve_auction_def first_or_none_def split: list.splits)

subsection \<open>Decoding what was encoded\<close>

lemma traverse_map:
  assumes "\<And>x. dec (enc x) = Inr x"
  shows "traverse dec (map enc xs) = Inr xs"
  by (induction xs) (simp_all add: assms)

lemma traverse_map_on:
  assumes "\<And>x. x \<in> set xs \<Longrightarrow> dec (enc x) = Inr x"
  shows "traverse dec (map enc xs) = Inr xs"
  using assms by (induction xs) simp_all

lemma decode_Quote_encode: "decode_Quote (encode_Quote q) = Inr q"
  by (cases q)
     (simp add: decode_Quote_def encode_Quote_def required_def decode_TokenAmount_def
        decode_Address_def validate_str_def)

lemma decode_Interaction_encode: "decode_Interaction (encode_Interaction i) = Inr i"
  by (cases i)
     (simp add: decode_Interaction_def encode_Interaction_def required_def decode_TokenAmount_def
        decode_Address_def validate_str_def)

lemma decode_FeePolicy_encode:
  "policy_finite fin p \<Longrightarrow> decode_FeePolicy L (encode_FeePolicy fin p) = Inr p"
  by (cases p)
     (simp_all add: policy_finite_def decode_FeePolicy_def encode_FeePolicy_def encode_float_def
        decode_SurplusFee_def decode_PriceImprovement_def decode_VolumeFee_def required_def
        validate_literal_def validate_float_def or_invalid_def decode_Quote_encode)

text \<open>A factor that is not finite is written as \<open>null\<close>, which no float field accepts.\<close>

lemma decode_VolumeFee_not_finite:
  "\<not> fin f \<Longrightarrow> decode_FeePolicy L (encode_FeePolicy fin (VolumeFee f)) = Inl ValidationError"
  by (simp add: decode_FeePolicy_def encode_FeePolicy_def encode_float_def decode_VolumeFee_def
        required_def validate_literal_def validate_float_def or_invalid_def)

lemma OrderKind_roundtrip: "validate_literal OrderKind_values (JStr (OrderKind_name k)) = Inr k"
  by (cases k) (simp_all add: validate_literal_def or_invalid_def OrderKind_values_def OrderKind_name_def)

lemma SellTokenSource_roundtrip:
  "validate_literal SellTokenSource_values (JStr (SellTokenSource_name k)) = Inr k"
  by (cases k)
     (simp_all add: validate_literal_def or_invalid_def SellTokenSource_values_def SellTokenSource_name_def)

lemma BuyTokenSource_roundtrip:
  "validate_literal BuyTokenSource_values (JStr (BuyTokenSource_name k)) = Inr k"
  by (cases k)
     (simp_all add: validate_literal_def or_invalid_def BuyTokenSource_values_def BuyTokenSource_name_def)

lemma OrderClass_roundtrip: "validate_literal OrderClass_values (JStr (OrderClass_name k)) = Inr k"
  by (cases k) (simp_all add: validate_literal_def or_invalid_def OrderClass_values_def OrderClass_name_def)

lemma SigningScheme_roundtrip:
  "validate_literal SigningScheme_values (JStr (SigningScheme_name k)) = Inr k"
  by (cases k)
     (simp_all add: validate_literal_def or_invalid_def SigningScheme_values_def SigningScheme_name_def)

lemmas literal_roundtrips = OrderKind_roundtrip SellTokenSource_roundtrip BuyTokenSource_roundtrip
  OrderClass_roundtrip SigningScheme_roundtrip

lemma validate_optional_if:
  "validate_optional v j = (if j = JNull then Inr None else bind_r (v j) (\<lambda>x. Inr (Some x)))"
  by (cases j) (simp_all add: validate_optional_def)

lemma validate_optional_encode:
  assumes "\<And>y. enc y \<noteq> JNull" and "\<And>y. dec (enc y) = Inr y"
  shows "validate_optional dec (encode_optional enc x) = Inr x"
  by (cases x) (simp_all add: validate_optional_if encode_optional_def assms)

lemma optional_Quote_roundtrip:
  "validate_optional decode_Quote (encode_optional encode_Quote q) = Inr q"
  by (rule validate_optional_encode) (simp_all add: decode_Quote_encode, simp add: encode_Quote_def)

lemma protocolFees_roundtrip:
  assumes "list_all (policy_finite fin) ps"
  shows "traverse (decode_FeePolicy L) (map (encode_FeePolicy fin) ps) = Inr ps"
proof (rule traverse_map_on)
  fix p assume "p \<in> set ps"
  with assms have "policy_finite fin p" by (simp add: list_all_iff)
  then show "decode_FeePolicy L (encode_FeePolicy fin p) = Inr p"
    by (rule decode_FeePolicy_encode)
qed

lemma decode_Order_encode:
  assumes "list_all (policy_finite fin) (o_protocolFees x)"
  shows "decode_Order L (encode_Order fin True x) = Inr x"
proof -
  have fees: "traverse (decode_FeePolicy L) (map (encode_FeePolicy fin) (o_protocolFees x)) =
      Inr (o_protocolFees x)"
    using assms by (rule protocolFees_roundtrip)
  have "decode_Order L (encode_Order fin True x) =
      Inr \<lparr> o_uid = o_uid x, o_sellToken = o_sellToken x, o_buyToken = o_buyToken x,
            o_sellAmount = o_sellAmount x, o_buyAmount = o_buyAmount x, o_created = o_created x,
            o_validTo = o_validTo x, o_kind = o_kind x, o_receiver = o_receiver x,
            o_owner = o_owner x, o_partiallyFillable = o_partiallyFillable x,
            o_executed = o_executed x, o_preInteractions = o_preInteractions x,
            o_postInteractions = o_postInteractions x,
            o_sellTokenBalance = o_sellTokenBalance x, o_buyTokenBalance = o_buyTokenBalance x,
            o_klass = o_klass x, o_appData = o_appData x, o_signingScheme = o_signingScheme x,
            o_signature = o_signature x, o_protocolFees = o_protocolFees x,
            o_quote = o_quote x \<rparr>"
    by (simp add: decode_Order_def encode_Order_def required_def with_default_def
          decode_OrderUID_def decode_TokenAmount_def decode_Address_def validate_str_def
          validate_int_def validate_bool_def validate_list_def literal_roundtrips
          traverse_map decode_Interaction_encode fees optional_Quote_roundtrip)
  then show ?thesis by simp
qed

text \<open>Dumped without aliases, an order is written under \<open>klass\<close> and is not read back.\<close>

lemma decode_Order_encode_no_alias:
  "decode_Order L (encode_Order fin False x) = Inl ValidationError"
  by (simp add: decode_Order_def encode_Order_def required_def with_default_def
        decode_OrderUID_def decode_TokenAmount_def decode_Address_def validate_str_def
        validate_int_def validate_bool_def validate_list_def literal_roundtrips
        traverse_map decode_Interaction_encode optional_Quote_roundtrip)

lemma encode_Order_class:
  "\<exists>kvs. encode_Order fin True x = JObj kvs
     \<and> map_of kvs ''class'' = Some (JStr (OrderClass_name (o_klass x)))
     \<and> map_of kvs ''klass'' = None"
  by (simp add: encode_Order_def)

lemma encode_Order_klass:
  "\<exists>kvs. encode_Order fin False x = JObj kvs
     \<and> map_of kvs ''klass'' = Some (JStr (OrderClass_name (o_klass x)))
     \<and> map_of kvs ''class'' = None"
  by (simp add: encode_Order_def)

lemma FulfillmentKind_only [simp]: "Fulfillment = k"
  by (cases k) simp

lemma LiquidityKind_only [simp]: "Liquidity = k"
  by (cases k) simp

lemma decode_TradeFulfillment_encode:
  "decode_TradeFulfillment (encode_TradeFulfillment t) = Inr t"
proof -
  have f: "\<And>x. validate_optional decode_TokenAmount (encode_optional JStr x) = Inr x"
    by (rule validate_optional_encode) (simp_all add: decode_TokenAmount_def validate_str_def)
  show ?thesis
    by (cases t)
       (simp add: decode_TradeFulfillment_def encode_TradeFulfillment_def required_def
          with_default_def decode_OrderUID_def decode_TokenAmount_def validate_str_def
          validate_literal_def or_invalid_def f split: FulfillmentKind.splits)
qed

lemma decode_LiquidityInteraction_encode:
  "decode_LiquidityInteraction L (encode_LiquidityInteraction i) = Inr i"
  by (cases i)
     (simp add: decode_LiquidityInteraction_def encode_LiquidityInteraction_def required_def
        with_default_def decode_Address_def decode_TokenAmount_def validate_str_def
        validate_bool_def validate_literal_def or_invalid_def split: LiquidityKind.splits)

lemma prices_roundtrip:
  "traverse (\<lambda>kx. bind_r (decode_TokenAmount (snd kx)) (\<lambda>y. Inr (fst kx, y)))
     (map (\<lambda>kv. (fst kv, JStr (snd kv))) ps) = Inr ps"
  by (induction ps) (simp_all add: decode_TokenAmount_def validate_str_def)

lemma decode_Solution_encode: "decode_Solution L (encode_Solution s) = Inr s"
proof -
  have g: "\<And>x. validate_optional (validate_int L) (encode_optional JInt x) = Inr x"
    by (rule validate_optional_encode) (simp_all add: validate_int_def)
  show ?thesis
    by (cases s)
       (simp add: decode_Solution_def encode_Solution_def required_def with_default_def
          validate_int_def validate_dict_def validate_list_def prices_roundtrip traverse_map
          decode_TradeFulfillment_encode decode_LiquidityInteraction_encode g)
qed

subsection \<open>The fee policy union\<close>

lemma validate_float_error: "validate_float L j = Inl e \<Longrightarrow> e = ValidationError"
  by (cases j) (auto simp: validate_float_def or_invalid_def split: option.splits)

lemma decode_FeePolicy_kind:
  assumes "decode_FeePolicy L j = Inr p"
  shows "\<exists>kvs. j = JObj kvs \<and> map_of kvs ''kind'' = Some (JStr (policy_kind p))"
proof (cases j)
  case (JObj kvs)
  show ?thesis
  proof (cases "map_of kvs ''kind''")
    case None
    with assms JObj show ?thesis by (simp add: decode_FeePolicy_def)
  next
    case (Some t)
    show ?thesis
    proof (cases t)
      case (JStr tag)
      consider "tag = ''surplus''" | "tag = ''priceImprovement''" | "tag = ''volume''"
        | "tag \<noteq> ''surplus''" "tag \<noteq> ''priceImprovement''" "tag \<noteq> ''volume''"
        by blast
      then show ?thesis
      proof cases
        case 1
        with assms JObj Some JStr have "decode_SurplusFee L kvs = Inr p"
          by (simp add: decode_FeePolicy_def)
        then have "policy_kind p = ''surplus''"
          by (auto simp: decode_SurplusFee_def bind_r_eq_Inr policy_kind_def)
        with JObj Some JStr 1 show ?thesis by simp
      next
        case 2
        with assms JObj Some JStr have "decode_PriceImprovement L kvs = Inr p"
          by (simp add: decode_FeePolicy_def)
        then have "policy_kind p = ''priceImprovement''"
          by (auto simp: decode_PriceImprovement_def bind_r_eq_Inr policy_kind_def)
        with JObj Some JStr 2 show ?thesis by simp
      next
        case 3
        with assms JObj Some JStr have "decode_VolumeFee L kvs = Inr p"
          by (simp add: decode_FeePolicy_def)
        then have "policy_kind p = ''volume''"
          by (auto simp: decode_VolumeFee_def bind_r_eq_Inr policy_kind_def)
        with JObj Some JStr 3 show ?thesis by simp
      next
        case 4
        with assms JObj Some JStr show ?thesis by (simp add: decode_FeePolicy_def)
      qed
    qed (use assms JObj Some in \<open>simp_all add: decode_FeePolicy_def\<close>)
  qed
qed (use assms in \<open>simp_all add: decode_FeePolicy_def\<close>)

lemma decode_FeePolicy_surplus_no_factor:
  assumes "map_of kvs ''kind'' = Some (JStr ''surplus'')" and "map_of kvs ''factor'' = None"
  shows "decode_FeePolicy L (JObj kvs) = Inl ValidationError"
proof -
  have "decode_SurplusFee L kvs = Inl ValidationError"
  proof (cases "required kvs ''maxVolumeFactor'' (validate_float L)")
    case (Inl e)
    then have "e = ValidationError"
      by (auto simp: required_def split: option.splits dest: validate_float_error)
    with Inl assms show ?thesis
      by (simp add: decode_SurplusFee_def required_def validate_literal_def or_invalid_def)
  next
    case (Inr m)
    with assms show ?thesis
      by (simp add: decode_SurplusFee_def required_def validate_literal_def or_invalid_def)
  qed
  then show ?thesis using assms(1) by (simp add: decode_FeePolicy_def)
qed

lemma decode_FeePolicy_unknown_kind:
  assumes "map_of kvs ''kind'' = Some (JStr tag)"
    and "tag \<notin> {''surplus'', ''priceImprovement'', ''volume''}"
  shows "decode_FeePolicy L (JObj kvs) = Inl ValidationError"
  using assms by (simp add: decode_FeePolicy_def)

subsection \<open>The solve request\<close>

lemma decode_example_order:
  "decode_SolverOrder example_conversions example_order_json = Inr example_order"
  by (simp add: decode_SolverOrder_def example_order_json_def example_order_def required_def
        with_default_def validate_str_def decode_TokenAmount_def decode_Address_def decode_OrderUID_def
        validate_literal_def or_invalid_def OrderClass_values_def OrderKind_values_def
        validate_bool_def validate_int_def validate_any_list_def)

lemma decode_example_liquidity:
  "decode_SolverLiquidity example_liquidity_json = Inr example_liquidity"
  by (simp add: decode_SolverLiquidity_def example_liquidity_json_def example_liquidity_def required_def
        validate_str_def decode_TokenAmount_def decode_Address_def validate_dict_def
        decode_SolverTokenBalance_def)

lemma decode_example_token:
  "decode_SolverTokenInfo L (JObj [(''availableBalance'', JStr ''1''), (''trusted'', JInt 1)]) =
     Inr \<lparr> availableBalance = ''1'', decimals = None, referencePrice = None, symbol = None,
           trusted = True \<rparr>"
  by (simp add: decode_SolverTokenInfo_def required_def with_default_def decode_TokenAmount_def
        validate_str_def validate_bool_def)

lemma decode_example_body:
  assumes "validate_id example_conversions rid = Inr i"
    and "traverse decode_SolverLiquidity ls = Inr liqs"
    and "traverse (decode_SolverOrder example_conversions) os = Inr ords"
  shows "decode_SolverRequest example_conversions (JObj (example_body rid os ls)) =
     Inr (example_request i ords liqs)"
  using assms
  by (simp add: decode_SolverRequest_def example_body_def example_request_def required_def
        with_default_def validate_datetime_def or_invalid_def example_conversions_def
        decode_TokenAmount_def decode_Address_def validate_str_def validate_list_def
        validate_dict_def decode_example_token)

lemma py_int_7: "py_int ''7'' = Inr 7"
  by code_simp

lemma validate_id_int: "validate_id L (JInt n) = Inr (Some n)"
  by (simp add: validate_id_def anystr_to_int_def validate_optional_def validate_int_def)

lemma validate_id_str: "py_int s = Inr n \<Longrightarrow> validate_id L (JStr s) = Inr (Some n)"
  by (simp add: validate_id_def anystr_to_int_def validate_optional_def validate_int_def)

lemma validate_id_null: "validate_id L JNull = Inr None"
  by (simp add: validate_id_def anystr_to_int_def validate_optional_def)

lemma decode_SolverRequest_id:
  assumes "decode_SolverRequest L (JObj kvs) = Inr r"
  shows "with_default kvs ''id'' (validate_id L) None = Inr (sr_id r)"
  using assms by (auto simp: decode_SolverRequest_def bind_r_eq_Inr)

section \<open>The quote estimator\<close>

text \<open>
  C1. The specification has the quote for kind \<open>sell\<close> carry
  \<open>buyAmount = floor(amount * 95 / 100)\<close> and the quote for kind \<open>buy\<close> carry
  \<open>sellAmount = floor(amount * 100 / 95)\<close>. The handler computes both numbers
  (\<open>quote_amounts\<close>) and then returns a response that holds neither: for a sell of 100
  the local \<open>buy_amount\<close> is 95, and the response is the fixed record below, the same
  one a sell of 200 gets.
\<close>

theorem get_quote_omits_amounts:
  "quote_amounts Sell ''100'' = Inr (''100'', ''95'')
   \<and> get_quote ''0xaa'' ''0xbb'' Sell ''100'' deadline =
       Inr \<lparr> qr_clearingPrices =
               [(''0xaa'', ''1000000000000000000''), (''0xbb'', ''950000000000000000'')],
             qr_preInteractions = [],
             qr_interactions = [],
             qr_solver = ''0x111111111111111111111111111111111111110aBcDeF'',
             qr_gas = 150000,
             qr_txOrigin = None,
             qr_jitOrders = [] \<rparr>
   \<and> get_quote ''0xaa'' ''0xbb'' Sell ''200'' deadline =
       get_quote ''0xaa'' ''0xbb'' Sell ''100'' deadline"
proof -
  have a: "get_quote ''0xaa'' ''0xbb'' Sell ''100'' deadline =
       Inr \<lparr> qr_clearingPrices =
               dict2 ''0xaa'' ''1000000000000000000'' ''0xbb'' ''950000000000000000'',
             qr_preInteractions = [], qr_interactions = [],
             qr_solver = ''0x111111111111111111111111111111111111110aBcDeF'',
             qr_gas = 150000, qr_txOrigin = None, qr_jitOrders = [] \<rparr>"
    by (rule get_quote_fixed [OF quote_amounts_sell_100])
  have b: "get_quote ''0xaa'' ''0xbb'' Sell ''200'' deadline =
       Inr \<lparr> qr_clearingPrices =
               dict2 ''0xaa'' ''1000000000000000000'' ''0xbb'' ''950000000000000000'',
             qr_preInteractions = [], qr_interactions = [],
             qr_solver = ''0x111111111111111111111111111111111111110aBcDeF'',
             qr_gas = 150000, qr_txOrigin = None, qr_jitOrders = [] \<rparr>"
    by (rule get_quote_fixed [OF quote_amounts_sell_200])
  have d: "dict2 ''0xaa'' ''1000000000000000000'' ''0xbb'' ''950000000000000000'' =
       [(''0xaa'', ''1000000000000000000''), (''0xbb'', ''950000000000000000'')]"
    by (simp add: dict2_def)
  show ?thesis
    using quote_amounts_sell_100 a b by (simp add: d)
qed

section \<open>The auction solver\<close>

text \<open>
  C2, as the code has it. Every solution the handler builds has the id 0: a run of solve
  calls hands out one 0 for each request that has an order and a liquidity entry. There
  is no counter.
\<close>

theorem solve_ids_all_zero:
  "produced_ids (solve_calls rs) = replicate (length (filter produces rs)) 0"
  by (induction rs)
     (simp_all add: produced_ids_def solve_calls_def solve_auction_cases produces_def
        mock_solution_def split: list.splits)

text \<open>
  C2, as the specification states it (solutions of distinct calls have distinct ids),
  fails: two calls on two different auctions both answer with the id 0.
\<close>

theorem solve_ids_counterexample:
  "produced_ids (solve_calls
      [example_request (Some 1) [example_order] [example_liquidity],
       example_request (Some 2) [example_order\<lparr>so_uid := ''0x41aa''\<rparr>] [example_liquidity]]) = [0, 0]
   \<and> \<not> distinct (produced_ids (solve_calls
      [example_request (Some 1) [example_order] [example_liquidity],
       example_request (Some 2) [example_order\<lparr>so_uid := ''0x41aa''\<rparr>] [example_liquidity]]))"
  by (simp add: produced_ids_def solve_calls_def solve_auction_cases example_request_def
        mock_solution_def)

text \<open>
  C4. An auction with exactly one order and exactly one liquidity entry gets exactly one
  solution; its trades are one trade, on the order's uid, and its interactions are one
  interaction, on the liquidity entry's id.
\<close>

theorem solve_single:
  assumes "sr_orders r = [ord]" and "sr_liquidity r = [liq]"
  shows "\<exists>s. solve_auction r = Inr \<lparr> solutions = [s] \<rparr>
           \<and> map tf_order (s_trades s) = [so_uid ord]
           \<and> map li_id (s_interactions s) = [sl_id liq]"
  using assms by (simp add: solve_auction_cases mock_solution_def)

theorem solve_single_witness:
  "sr_orders (example_request (Some 1) [example_order] [example_liquidity]) = [example_order]
   \<and> sr_liquidity (example_request (Some 1) [example_order] [example_liquidity]) = [example_liquidity]
   \<and> (\<exists>s. solve_auction (example_request (Some 1) [example_order] [example_liquidity])
             = Inr \<lparr> solutions = [s] \<rparr>
           \<and> map tf_order (s_trades s) = [''0x30cf'']
           \<and> map li_id (s_interactions s) = [''7''])"
  using solve_single [of "example_request (Some 1) [example_order] [example_liquidity]"
      example_order example_liquidity]
  by (simp add: example_request_def example_order_def example_liquidity_def)

text \<open>
  C10. Whenever the auction has an order and a liquidity entry, the one trade of the one
  solution executes the first order's \<open>sellAmount\<close>, whatever the order's kind. The
  witness is a buy order selling 1000 for 950: the executed amount is 1000.
\<close>

theorem solve_executes_sell_amount:
  assumes "sr_orders r = ord # os" and "sr_liquidity r = liq # ls"
  shows "\<exists>s. solve_auction r = Inr \<lparr> solutions = [s] \<rparr>
           \<and> map tf_executedAmount (s_trades s) = [so_sellAmount ord]"
  using assms by (simp add: solve_auction_cases mock_solution_def)

theorem solve_executes_sell_amount_witness:
  "sr_orders (example_request None [example_order, example_order\<lparr>so_kind := Sell\<rparr>]
       [example_liquidity]) = example_order # [example_order\<lparr>so_kind := Sell\<rparr>]
   \<and> sr_liquidity (example_request None [example_order, example_order\<lparr>so_kind := Sell\<rparr>]
       [example_liquidity]) = example_liquidity # []
   \<and> so_kind example_order = Buy \<and> so_buyAmount example_order = ''950''
   \<and> (\<exists>s. solve_auction (example_request None [example_order, example_order\<lparr>so_kind := Sell\<rparr>]
               [example_liquidity]) = Inr \<lparr> solutions = [s] \<rparr>
           \<and> map tf_executedAmount (s_trades s) = [''1000''])"
  using solve_executes_sell_amount
    [of "example_request None [example_order, example_order\<lparr>so_kind := Sell\<rparr>] [example_liquidity]"
      example_order "[example_order\<lparr>so_kind := Sell\<rparr>]" example_liquidity "[]"]
  by (simp add: example_request_def example_order_def)

section \<open>The reveal service\<close>

text \<open>
  C3, as the code has it. The handler answers every request with the same two
  placeholder payloads; it keeps no record of the solutions produced and has no failure.
\<close>

theorem reveal_always_calldata:
  "reveal_solution request =
     Inr \<lparr> calldata = \<lparr> internalized = ''0xdeadbeef1234'', uninternalized = ''0xfeedface5678'' \<rparr> \<rparr>"
  by (simp add: reveal_solution_def)

text \<open>
  C3, as the specification states it (a reveal of an id that no solve call produced fails
  with NotFound), fails: before any solve call, the reveal of solution 42 returns
  calldata.
\<close>

theorem reveal_counterexample:
  "42 \<notin> set (produced_ids (solve_calls ([] :: (string, string) SolverRequest list)))
   \<and> reveal_solution \<lparr> solutionId = 42, auctionId = 123 \<rparr> \<noteq> Inl NotFound
   \<and> reveal_solution \<lparr> solutionId = 42, auctionId = 123 \<rparr> =
       Inr \<lparr> calldata = \<lparr> internalized = ''0xdeadbeef1234'', uninternalized = ''0xfeedface5678'' \<rparr> \<rparr>"
  by (simp add: reveal_solution_def produced_ids_def solve_calls_def)

section \<open>Empty auctions\<close>

text \<open>
  C5. An auction whose orders are empty or whose liquidity is empty is answered by the
  handler with the empty list of solutions, a normal return; and a request body that
  validates to such an auction is answered by the endpoint in the same way. The witness
  is a body whose \<open>orders\<close> and \<open>liquidity\<close> are both \<open>[]\<close>: it passes validation.
\<close>

theorem solve_empty:
  "(sr_orders r = [] \<or> sr_liquidity r = [] \<longrightarrow> solve_auction r = Inr \<lparr> solutions = [] \<rparr>)
   \<and> (decode_SolverRequest L body = Inr r \<and> (sr_orders r = [] \<or> sr_liquidity r = []) \<longrightarrow>
        post_solve L body = Inr \<lparr> solutions = [] \<rparr>)"
proof -
  have h: "sr_orders r = [] \<or> sr_liquidity r = [] \<Longrightarrow> solve_auction r = Inr \<lparr> solutions = [] \<rparr>"
    by (auto simp: solve_auction_cases split: list.splits)
  show ?thesis
    using h by (auto simp: post_solve_def)
qed

theorem solve_empty_witness:
  "sr_orders (example_request (Some 1) [] []) = []
   \<and> decode_SolverRequest example_conversions (JObj (example_body (JInt 1) [] [])) =
       Inr (example_request (Some 1) [] [])
   \<and> solve_auction (example_request (Some 1) [] []) = Inr \<lparr> solutions = [] \<rparr>
   \<and> post_solve example_conversions (JObj (example_body (JInt 1) [] [])) = Inr \<lparr> solutions = [] \<rparr>"
proof -
  have d: "decode_SolverRequest example_conversions (JObj (example_body (JInt 1) [] [])) =
       Inr (example_request (Some 1) [] [])"
    by (rule decode_example_body) (simp_all add: validate_id_int)
  have e: "sr_orders (example_request (Some 1) [] []) = []"
    by (simp add: example_request_def)
  show ?thesis
    using solve_empty [of "example_request (Some 1) [] []" example_conversions
        "JObj (example_body (JInt 1) [] [])"] d e
    by simp
qed

section \<open>The validation layer\<close>

text \<open>
  C6. The fee policy is decoded by its \<open>kind\<close>: a payload that decodes is an object whose
  \<open>kind\<close> is the kind of the variant it decodes to; an object of kind \<open>surplus\<close> with no
  \<open>factor\<close> fails validation; an object whose kind is none of the three fails validation;
  and an object of each kind with that kind's fields decodes to that kind's variant. The
  witness has the fields of a surplus fee under the kind \<open>volume\<close>: it is a volume fee.
\<close>

theorem fee_policy_discriminated:
  "(decode_FeePolicy L j = Inr p \<longrightarrow>
      (\<exists>kvs. j = JObj kvs \<and> map_of kvs ''kind'' = Some (JStr (policy_kind p))))
   \<and> (map_of kvs ''kind'' = Some (JStr ''surplus'') \<and> map_of kvs ''factor'' = None \<longrightarrow>
      decode_FeePolicy L (JObj kvs) = Inl ValidationError)
   \<and> (map_of kvs' ''kind'' = Some (JStr tag) \<and> tag \<notin> {''surplus'', ''priceImprovement'', ''volume''} \<longrightarrow>
      decode_FeePolicy L (JObj kvs') = Inl ValidationError)
   \<and> decode_FeePolicy L (JObj [(''kind'', JStr ''surplus''), (''maxVolumeFactor'', JFloat m), (''factor'', JFloat f)])
       = Inr (SurplusFee m f)
   \<and> decode_FeePolicy L (JObj [(''kind'', JStr ''priceImprovement''), (''maxVolumeFactor'', JFloat m),
         (''factor'', JFloat f), (''quote'', encode_Quote q)])
       = Inr (PriceImprovement m f q)
   \<and> decode_FeePolicy L (JObj [(''kind'', JStr ''volume''), (''factor'', JFloat f)]) = Inr (VolumeFee f)"
proof -
  have a: "decode_FeePolicy L (JObj [(''kind'', JStr ''surplus''), (''maxVolumeFactor'', JFloat m), (''factor'', JFloat f)])
       = Inr (SurplusFee m f)"
    by (simp add: decode_FeePolicy_def decode_SurplusFee_def required_def validate_literal_def
          validate_float_def or_invalid_def)
  have b: "decode_FeePolicy L (JObj [(''kind'', JStr ''priceImprovement''), (''maxVolumeFactor'', JFloat m),
         (''factor'', JFloat f), (''quote'', encode_Quote q)])
       = Inr (PriceImprovement m f q)"
    by (simp add: decode_FeePolicy_def decode_PriceImprovement_def required_def validate_literal_def
          validate_float_def or_invalid_def decode_Quote_encode)
  have c: "decode_FeePolicy L (JObj [(''kind'', JStr ''volume''), (''factor'', JFloat f)]) = Inr (VolumeFee f)"
    by (simp add: decode_FeePolicy_def decode_VolumeFee_def required_def validate_literal_def
          validate_float_def or_invalid_def)
  show ?thesis
    using decode_FeePolicy_kind [of L j p] decode_FeePolicy_surplus_no_factor [of kvs L]
      decode_FeePolicy_unknown_kind [of kvs' tag L] a b c
    by blast
qed

theorem fee_policy_discriminated_witness:
  "decode_FeePolicy example_conversions
      (JObj [(''kind'', JStr ''volume''), (''maxVolumeFactor'', JFloat ''0.1''), (''factor'', JFloat ''0.5'')])
     = Inr (VolumeFee ''0.5'')
   \<and> policy_kind (VolumeFee ''0.5'') = ''volume''
   \<and> decode_FeePolicy example_conversions
        (JObj [(''kind'', JStr ''surplus''), (''maxVolumeFactor'', JFloat ''0.1'')]) = Inl ValidationError
   \<and> decode_FeePolicy example_conversions
        (JObj [(''kind'', JStr ''unknown''), (''factor'', JFloat ''0.5'')]) = Inl ValidationError"
  using fee_policy_discriminated [of example_conversions
      "JObj [(''kind'', JStr ''volume''), (''maxVolumeFactor'', JFloat ''0.1''), (''factor'', JFloat ''0.5'')]"
      "VolumeFee ''0.5''"
      "[(''kind'', JStr ''surplus''), (''maxVolumeFactor'', JFloat ''0.1'')]"
      "[(''kind'', JStr ''unknown''), (''factor'', JFloat ''0.5'')]" "''unknown''"]
  by (simp add: policy_kind_def decode_FeePolicy_def decode_VolumeFee_def required_def
        validate_literal_def validate_float_def or_invalid_def)

text \<open>
  C7, as the code has it. A token amount is a string field with no validator: every JSON
  string decodes, to itself, and nothing but a string does. Digits, leading zeros, signs
  and the range play no part.
\<close>

theorem token_amount_any_string:
  "decode_TokenAmount j = Inr s \<longleftrightarrow> j = JStr s"
  by (cases j) (auto simp: decode_TokenAmount_def validate_str_def)

text \<open>
  C7, as the specification states it (decoding succeeds exactly on the decimal wire form),
  fails: a leading zero, a sign and a letter are all accepted.
\<close>

theorem token_amount_counterexample:
  "decode_TokenAmount (JStr ''007'' :: string json) = Inr ''007'' \<and> \<not> spec_amount_wire_form ''007''
   \<and> decode_TokenAmount (JStr ''-1'' :: string json) = Inr ''-1'' \<and> \<not> spec_amount_wire_form ''-1''
   \<and> decode_TokenAmount (JStr ''12a'' :: string json) = Inr ''12a'' \<and> \<not> spec_amount_wire_form ''12a''"
  by (simp add: decode_TokenAmount_def validate_str_def spec_amount_wire_form_def py_isdigit_def)

text \<open>
  C8, as the code has it. No handler encodes an order or a fee policy; the statement is
  about the library's JSON dump of the models as declared. Decoding what a solution is
  encoded to gives the solution back. Decoding what a fee policy is encoded to gives the
  policy back when its factors are finite floats, and so for an order (encoded by alias)
  when the factors of its protocol fees are finite; a volume fee whose factor is not
  finite is encoded with \<open>null\<close> and is not read back. The order's class is read from
  the key \<open>class\<close>; it is written under \<open>class\<close> when the dump is by alias, and under
  \<open>klass\<close> when it is not (the library's default), and that dump is not read back.
\<close>

theorem decode_encode_roundtrip:
  "(list_all (policy_finite fin) (o_protocolFees x) \<longrightarrow>
      decode_Order L (encode_Order fin True x) = Inr x)
   \<and> decode_Solution L (encode_Solution s) = Inr s
   \<and> (policy_finite fin p \<longrightarrow> decode_FeePolicy L (encode_FeePolicy fin p) = Inr p)
   \<and> (\<not> fin f \<longrightarrow> decode_FeePolicy L (encode_FeePolicy fin (VolumeFee f)) = Inl ValidationError)
   \<and> (\<exists>kvs. encode_Order fin True x = JObj kvs
         \<and> map_of kvs ''class'' = Some (JStr (OrderClass_name (o_klass x)))
         \<and> map_of kvs ''klass'' = None)
   \<and> (\<exists>kvs. encode_Order fin False x = JObj kvs
         \<and> map_of kvs ''klass'' = Some (JStr (OrderClass_name (o_klass x)))
         \<and> map_of kvs ''class'' = None)
   \<and> decode_Order L (encode_Order fin False x) = Inl ValidationError"
  using decode_Order_encode [of fin x L] decode_Solution_encode [of L s]
    decode_FeePolicy_encode [of fin p L] decode_VolumeFee_not_finite [of fin f L]
    encode_Order_class [of fin x] encode_Order_klass [of fin x]
    decode_Order_encode_no_alias [of L fin x]
  by blast

theorem decode_encode_roundtrip_witness:
  "list_all (policy_finite example_isfinite) (o_protocolFees example_full_order)
   \<and> decode_Order example_conversions (encode_Order example_isfinite True example_full_order) =
       Inr example_full_order
   \<and> policy_finite example_isfinite (SurplusFee ''0.1'' ''0.5'')
   \<and> decode_FeePolicy example_conversions (encode_FeePolicy example_isfinite (SurplusFee ''0.1'' ''0.5'')) =
       Inr (SurplusFee ''0.1'' ''0.5'')
   \<and> \<not> example_isfinite ''nan''
   \<and> decode_FeePolicy example_conversions (encode_FeePolicy example_isfinite (VolumeFee ''nan'')) =
       Inl ValidationError"
proof -
  have a: "list_all (policy_finite example_isfinite) (o_protocolFees example_full_order)"
    by (simp add: example_full_order_def policy_finite_def example_isfinite_def)
  have b: "policy_finite example_isfinite (SurplusFee ''0.1'' ''0.5'')"
    by (simp add: policy_finite_def example_isfinite_def)
  have c: "\<not> example_isfinite ''nan''"
    by (simp add: example_isfinite_def)
  show ?thesis
    using decode_encode_roundtrip [of example_isfinite example_full_order example_conversions
        "\<lparr> s_id = 0, s_prices = [], s_trades = [], s_interactions = [], s_gas = None \<rparr>"
        "SurplusFee ''0.1'' ''0.5''" "''nan''"] a b c
    by simp
qed

text \<open>
  C8, as the specification states it, fails twice. Encoding what a valid payload decodes
  to does not give the payload back: a solution written without the optional \<open>gas\<close>
  decodes, and is encoded with \<open>gas\<close> as \<open>null\<close>. And decoding what a value is encoded
  to does not give every value back: a surplus fee whose factor is a NaN is a value of
  the model, is encoded with \<open>factor\<close> as \<open>null\<close>, and that is refused.
\<close>

theorem encode_decode_counterexample:
  "decode_Solution example_conversions bare_solution =
     Inr \<lparr> s_id = 0, s_prices = [(''0xaa'', ''950'')], s_trades = [], s_interactions = [],
           s_gas = None \<rparr>
   \<and> encode_Solution \<lparr> s_id = 0, s_prices = [(''0xaa'', ''950'')], s_trades = [],
         s_interactions = [], s_gas = None \<rparr> \<noteq> bare_solution
   \<and> encode_FeePolicy example_isfinite (SurplusFee ''0.1'' ''nan'') =
       JObj [(''kind'', JStr ''surplus''), (''maxVolumeFactor'', JFloat ''0.1''), (''factor'', JNull)]
   \<and> decode_FeePolicy example_conversions (encode_FeePolicy example_isfinite (SurplusFee ''0.1'' ''nan'')) =
       Inl ValidationError"
  by (simp add: bare_solution_def decode_Solution_def encode_Solution_def required_def with_default_def
        validate_int_def validate_dict_def validate_list_def decode_TokenAmount_def validate_str_def
        encode_optional_def encode_FeePolicy_def encode_float_def example_isfinite_def
        decode_FeePolicy_def decode_SurplusFee_def validate_literal_def validate_float_def
        or_invalid_def)

text \<open>
  C9, as the code has it. The \<open>id\<close> of a solve request is accepted as an integer and as a
  string that Python's \<open>int\<close> reads (every plain decimal numeral of at most 4300 digits
  is one), and is the integer in both cases; \<open>null\<close> stays absent; and the \<open>id\<close> of a
  decoded request is what this validation gives on the \<open>id\<close> item, absent when there is
  none.
\<close>

theorem solve_request_id:
  "validate_id L (JInt n) = Inr (Some n)
   \<and> (py_int s = Inr n \<longrightarrow> validate_id L (JStr s) = Inr (Some n))
   \<and> (length (dec_digits m) \<le> max_str_digits \<longrightarrow>
        validate_id L (JStr (dec_digits m)) = Inr (Some (int m)))
   \<and> validate_id L JNull = Inr None
   \<and> (decode_SolverRequest L (JObj kvs) = Inr r \<longrightarrow>
        (case map_of kvs ''id'' of None \<Rightarrow> sr_id r = None | Some v \<Rightarrow> validate_id L v = Inr (sr_id r)))"
  using validate_id_int [of L n] validate_id_str [of s n L]
    validate_id_str [of "dec_digits m" "int m" L] py_int_dec_digits [of m]
    validate_id_null [of L] decode_SolverRequest_id [of L kvs r]
  by (auto simp: with_default_def split: option.splits)

theorem solve_request_id_witness:
  "validate_id example_conversions (JInt 7) = Inr (Some 7)
   \<and> py_int ''7'' = Inr 7
   \<and> validate_id example_conversions (JStr ''7'') = Inr (Some 7)
   \<and> length (dec_digits 7) \<le> max_str_digits
   \<and> validate_id example_conversions (JStr (dec_digits 7)) = Inr (Some 7)
   \<and> validate_id example_conversions JNull = Inr None
   \<and> decode_SolverRequest example_conversions
        (JObj (example_body (JStr ''7'') [example_order_json] [example_liquidity_json])) =
       Inr (example_request (Some 7) [example_order] [example_liquidity])
   \<and> sr_id (example_request (Some 7) [example_order] [example_liquidity]) = Some 7"
proof -
  have d: "decode_SolverRequest example_conversions
        (JObj (example_body (JStr ''7'') [example_order_json] [example_liquidity_json])) =
       Inr (example_request (Some 7) [example_order] [example_liquidity])"
    by (rule decode_example_body)
       (simp_all add: validate_id_str [OF py_int_7] decode_example_order decode_example_liquidity)
  have l: "length (dec_digits 7) \<le> max_str_digits"
    by code_simp
  have i: "sr_id (example_request (Some 7) [example_order] [example_liquidity]) = Some 7"
    by (simp add: example_request_def)
  show ?thesis
    using solve_request_id [of example_conversions 7 "''7''" 7
        "example_body (JStr ''7'') [example_order_json] [example_liquidity_json]"
        "example_request (Some 7) [example_order] [example_liquidity]"]
      py_int_7 d l i
    by simp
qed

text \<open>
  C9, as the specification states it (the \<open>id\<close> is the only value the validation layer
  coerces), fails: the fields are validated in the library's default mode, which takes
  the integer 1 for a boolean. A token whose \<open>trusted\<close> is \<open>1\<close> decodes with
  \<open>trusted = True\<close>, alone and inside a solve request.
\<close>

theorem coercion_counterexample:
  "decode_SolverTokenInfo example_conversions
      (JObj [(''availableBalance'', JStr ''1''), (''trusted'', JInt 1)]) =
     Inr \<lparr> availableBalance = ''1'', decimals = None, referencePrice = None, symbol = None,
           trusted = True \<rparr>
   \<and> map_of (example_body (JInt 1) [] []) ''tokens'' =
       Some (JObj [(''0xaa'', JObj [(''availableBalance'', JStr ''1''), (''trusted'', JInt 1)])])
   \<and> decode_SolverRequest example_conversions (JObj (example_body (JInt 1) [] [])) =
       Inr (example_request (Some 1) [] [])
   \<and> map (trusted \<circ> snd) (sr_tokens (example_request (Some 1) [] [])) = [True]"
proof -
  have d: "decode_SolverRequest example_conversions (JObj (example_body (JInt 1) [] [])) =
       Inr (example_request (Some 1) [] [])"
    by (rule decode_example_body) (simp_all add: validate_id_int)
  show ?thesis
    using d decode_example_token [of example_conversions]
    by (simp add: example_body_def example_request_def)
qed

end
